theory Spec2Isabelle
  imports Main "HOL-Library.Word"
begin

section \<open>Solidity values and failures\<close>

text \<open>
  The contracts are compiled with \<^verbatim>\<open>pragma solidity ^0.8.19\<close>. An \<^verbatim>\<open>address\<close> is a
  160-bit word. A \<^verbatim>\<open>uint256\<close> is modelled as a natural number; arithmetic outside an
  \<^verbatim>\<open>unchecked\<close> block reverts with \<^verbatim>\<open>Panic(0x11)\<close> when the result leaves
  \<open>0 .. MAX_UINT256\<close>, a division by zero reverts with \<^verbatim>\<open>Panic(0x12)\<close>, an array read
  past its length with \<^verbatim>\<open>Panic(0x32)\<close>, and a failed \<^verbatim>\<open>require\<close> reverts with its
  message. Every external function is a function from the state before the call to
  either a failure (\<open>Inl\<close>: the transaction is reverted and the state before the call
  stays) or the result and the state after the call (\<open>Inr\<close>). The caller
  (\<^verbatim>\<open>msg.sender\<close>), the attached payment (\<^verbatim>\<open>msg.value\<close>) and the time
  (\<^verbatim>\<open>block.timestamp\<close>) are explicit arguments. Events are not modelled.
\<close>

type_synonym address = "160 word"

definition MAX_UINT256 :: nat where
  "MAX_UINT256 = 2 ^ 256 - 1"

definition wrap256 :: "nat \<Rightarrow> nat" where
  "wrap256 n = n mod (MAX_UINT256 + 1)"

datatype failure = Revert string | Panic_0x11 | Panic_0x12 | Panic_0x32

text \<open>Sequencing: the next step runs on what the last one returned; a failure ends the sequence.\<close>

definition and_then :: "'e + 'a \<Rightarrow> ('a \<Rightarrow> 'e + 'b) \<Rightarrow> 'e + 'b" where
  "and_then r f = (case r of Inl e \<Rightarrow> Inl e | Inr x \<Rightarrow> f x)"

section \<open>CarbonCreditToken\<close>

record CreditBatch =
  cb_projectId :: nat
  cb_amount :: nat
  cb_vintage :: nat
  cb_verificationStandard :: string
  cb_ipfsMetadata :: string
  cb_isRetired :: bool
  cb_createdAt :: nat
  cb_originalOwner :: address

record RetirementInfo =
  ri_batchId :: nat
  ri_amount :: nat
  ri_reason :: string
  ri_retiredBy :: address
  ri_timestamp :: nat

text \<open>
  The state of the token: the storage of \<^verbatim>\<open>CarbonCreditToken\<close> and of the contracts it
  inherits from the package \<^verbatim>\<open>@openzeppelin/contracts\<close> (the contract's imports; version 4
  of the package, which has \<^verbatim>\<open>security/ReentrancyGuard.sol\<close> and the hook
  \<^verbatim>\<open>_beforeTokenTransfer\<close> that the token overrides): \<^verbatim>\<open>Ownable\<close> (the owner),
  \<^verbatim>\<open>Pausable\<close> (the flag), and \<^verbatim>\<open>ERC20\<close> (\<^verbatim>\<open>_balances\<close>, \<^verbatim>\<open>_allowances\<close>,
  \<^verbatim>\<open>_totalSupply\<close>).
\<close>

record token_state =
  tk_owner :: address
  tk_paused :: bool
  tk_balances :: "address \<Rightarrow> nat"
  tk_allowances :: "address \<Rightarrow> address \<Rightarrow> nat"
  tk_totalSupply :: nat
  batchIdCounter :: nat
  creditBatches :: "nat \<Rightarrow> CreditBatch"
  ownerBatches :: "address \<Rightarrow> nat list"
  projectBatches :: "nat \<Rightarrow> nat list"
  batchRetirements :: "nat \<Rightarrow> RetirementInfo list"
  totalRetiredCredits :: "address \<Rightarrow> nat"
  totalIssuedCredits :: nat
  totalRetiredCreditsGlobal :: nat

definition empty_batch :: CreditBatch where
  "empty_batch = \<lparr>cb_projectId = 0, cb_amount = 0, cb_vintage = 0,
     cb_verificationStandard = [], cb_ipfsMetadata = [], cb_isRetired = False,
     cb_createdAt = 0, cb_originalOwner = 0\<rparr>"

text \<open>The state after the constructor, deployed by \<open>deployer\<close>.\<close>

definition token_init :: "address \<Rightarrow> token_state" where
  "token_init deployer = \<lparr>tk_owner = deployer, tk_paused = False,
     tk_balances = (\<lambda>_. 0), tk_allowances = (\<lambda>_ _. 0), tk_totalSupply = 0,
     batchIdCounter = 0, creditBatches = (\<lambda>_. empty_batch),
     ownerBatches = (\<lambda>_. []), projectBatches = (\<lambda>_. []),
     batchRetirements = (\<lambda>_. []), totalRetiredCredits = (\<lambda>_. 0),
     totalIssuedCredits = 0, totalRetiredCreditsGlobal = 0\<rparr>"

definition decimals :: nat where
  "decimals = 18"

subsection \<open>The inherited ERC20 functions\<close>

text \<open>
  \<^verbatim>\<open>_mint\<close>, \<^verbatim>\<open>_burn\<close>, \<^verbatim>\<open>_transfer\<close>, \<^verbatim>\<open>_approve\<close> and \<^verbatim>\<open>_spendAllowance\<close> of
  OpenZeppelin's \<^verbatim>\<open>ERC20\<close>, with the \<^verbatim>\<open>_beforeTokenTransfer\<close> hook of
  \<^verbatim>\<open>ERC20Pausable\<close> that the token's override calls through \<^verbatim>\<open>super\<close>. The balance
  updates stand in \<^verbatim>\<open>unchecked\<close> blocks there, so they wrap.
\<close>

definition erc20_mint :: "token_state \<Rightarrow> address \<Rightarrow> nat \<Rightarrow> failure + token_state" where
  "erc20_mint s account amt =
     (if account = 0 then Inl (Revert ''ERC20: mint to the zero address'')
      else if tk_paused s then Inl (Revert ''ERC20Pausable: token transfer while paused'')
      else if tk_totalSupply s + amt > MAX_UINT256 then Inl Panic_0x11
      else Inr (s\<lparr>tk_totalSupply := tk_totalSupply s + amt,
                  tk_balances := (tk_balances s)(account := wrap256 (tk_balances s account + amt))\<rparr>))"

definition erc20_burn :: "token_state \<Rightarrow> address \<Rightarrow> nat \<Rightarrow> failure + token_state" where
  "erc20_burn s account amt =
     (if account = 0 then Inl (Revert ''ERC20: burn from the zero address'')
      else if tk_paused s then Inl (Revert ''ERC20Pausable: token transfer while paused'')
      else if tk_balances s account < amt then Inl (Revert ''ERC20: burn amount exceeds balance'')
      else Inr (s\<lparr>tk_balances := (tk_balances s)(account := tk_balances s account - amt),
                  tk_totalSupply := (if amt \<le> tk_totalSupply s then tk_totalSupply s - amt
                                     else tk_totalSupply s + (MAX_UINT256 + 1) - amt)\<rparr>))"

definition erc20_transfer :: "token_state \<Rightarrow> address \<Rightarrow> address \<Rightarrow> nat \<Rightarrow> failure + token_state" where
  "erc20_transfer s from to amt =
     (if from = 0 then Inl (Revert ''ERC20: transfer from the zero address'')
      else if to = 0 then Inl (Revert ''ERC20: transfer to the zero address'')
      else if tk_paused s then Inl (Revert ''ERC20Pausable: token transfer while paused'')
      else if tk_balances s from < amt then Inl (Revert ''ERC20: transfer amount exceeds balance'')
      else
        (let b1 = (tk_balances s)(from := tk_balances s from - amt);
             b2 = b1(to := wrap256 (b1 to + amt))
         in Inr (s\<lparr>tk_balances := b2\<rparr>)))"

definition erc20_approve :: "token_state \<Rightarrow> address \<Rightarrow> address \<Rightarrow> nat \<Rightarrow> failure + token_state" where
  "erc20_approve s holder spender amt =
     (if holder = 0 then Inl (Revert ''ERC20: approve from the zero address'')
      else if spender = 0 then Inl (Revert ''ERC20: approve to the zero address'')
      else Inr (s\<lparr>tk_allowances := (tk_allowances s)(holder := (tk_allowances s holder)(spender := amt))\<rparr>))"

definition erc20_spendAllowance :: "token_state \<Rightarrow> address \<Rightarrow> address \<Rightarrow> nat \<Rightarrow> failure + token_state" where
  "erc20_spendAllowance s holder spender amt =
     (let currentAllowance = tk_allowances s holder spender in
      if currentAllowance = MAX_UINT256 then Inr s
      else if currentAllowance < amt then Inl (Revert ''ERC20: insufficient allowance'')
      else erc20_approve s holder spender (currentAllowance - amt))"

text \<open>
  The external functions that the token inherits: \<^verbatim>\<open>transfer\<close>, \<^verbatim>\<open>approve\<close>,
  \<^verbatim>\<open>transferFrom\<close>, \<^verbatim>\<open>increaseAllowance\<close> and \<^verbatim>\<open>decreaseAllowance\<close> of \<^verbatim>\<open>ERC20\<close>,
  \<^verbatim>\<open>burn\<close> and \<^verbatim>\<open>burnFrom\<close> of \<^verbatim>\<open>ERC20Burnable\<close>, \<^verbatim>\<open>transferOwnership\<close> and
  \<^verbatim>\<open>renounceOwnership\<close> of \<^verbatim>\<open>Ownable\<close>; and the token's \<^verbatim>\<open>pause\<close> and \<^verbatim>\<open>unpause\<close>.
\<close>

definition transfer :: "token_state \<Rightarrow> address \<Rightarrow> address \<Rightarrow> nat \<Rightarrow> failure + token_state" where
  "transfer s sender to amt = erc20_transfer s sender to amt"

definition approve :: "token_state \<Rightarrow> address \<Rightarrow> address \<Rightarrow> nat \<Rightarrow> failure + token_state" where
  "approve s sender spender amt = erc20_approve s sender spender amt"

definition transferFrom :: "token_state \<Rightarrow> address \<Rightarrow> address \<Rightarrow> address \<Rightarrow> nat \<Rightarrow> failure + token_state" where
  "transferFrom s sender from to amt =
     (case erc20_spendAllowance s from sender amt of
        Inl e \<Rightarrow> Inl e
      | Inr s1 \<Rightarrow> erc20_transfer s1 from to amt)"

definition increaseAllowance :: "token_state \<Rightarrow> address \<Rightarrow> address \<Rightarrow> nat \<Rightarrow> failure + token_state" where
  "increaseAllowance s sender spender addedValue =
     (if tk_allowances s sender spender + addedValue > MAX_UINT256 then Inl Panic_0x11
      else erc20_approve s sender spender (tk_allowances s sender spender + addedValue))"

definition decreaseAllowance :: "token_state \<Rightarrow> address \<Rightarrow> address \<Rightarrow> nat \<Rightarrow> failure + token_state" where
  "decreaseAllowance s sender spender subtractedValue =
     (if tk_allowances s sender spender < subtractedValue
      then Inl (Revert ''ERC20: decreased allowance below zero'')
      else erc20_approve s sender spender (tk_allowances s sender spender - subtractedValue))"

definition burn :: "token_state \<Rightarrow> address \<Rightarrow> nat \<Rightarrow> failure + token_state" where
  "burn s sender amt = erc20_burn s sender amt"

definition burnFrom :: "token_state \<Rightarrow> address \<Rightarrow> address \<Rightarrow> nat \<Rightarrow> failure + token_state" where
  "burnFrom s sender account amt =
     (case erc20_spendAllowance s account sender amt of
        Inl e \<Rightarrow> Inl e
      | Inr s1 \<Rightarrow> erc20_burn s1 account amt)"

definition pause :: "token_state \<Rightarrow> address \<Rightarrow> failure + token_state" where
  "pause s sender =
     (if sender \<noteq> tk_owner s then Inl (Revert ''Ownable: caller is not the owner'')
      else if tk_paused s then Inl (Revert ''Pausable: paused'')
      else Inr (s\<lparr>tk_paused := True\<rparr>))"

definition unpause :: "token_state \<Rightarrow> address \<Rightarrow> failure + token_state" where
  "unpause s sender =
     (if sender \<noteq> tk_owner s then Inl (Revert ''Ownable: caller is not the owner'')
      else if tk_paused s then Inr (s\<lparr>tk_paused := False\<rparr>)
      else Inl (Revert ''Pausable: not paused''))"

definition transferOwnership :: "token_state \<Rightarrow> address \<Rightarrow> address \<Rightarrow> failure + token_state" where
  "transferOwnership s sender newOwner =
     (if sender \<noteq> tk_owner s then Inl (Revert ''Ownable: caller is not the owner'')
      else if newOwner = 0 then Inl (Revert ''Ownable: new owner is the zero address'')
      else Inr (s\<lparr>tk_owner := newOwner\<rparr>))"

definition renounceOwnership :: "token_state \<Rightarrow> address \<Rightarrow> failure + token_state" where
  "renounceOwnership s sender =
     (if sender \<noteq> tk_owner s then Inl (Revert ''Ownable: caller is not the owner'')
      else Inr (s\<lparr>tk_owner := 0\<rparr>))"

subsection \<open>The token's own functions\<close>

definition validBatchId :: "token_state \<Rightarrow> nat \<Rightarrow> bool" where
  "validBatchId s bid = (bid > 0 \<and> bid \<le> batchIdCounter s)"

definition mintCreditBatch ::
  "token_state \<Rightarrow> address \<Rightarrow> nat \<Rightarrow> nat \<Rightarrow> nat \<Rightarrow> nat \<Rightarrow> string \<Rightarrow> string \<Rightarrow> address
     \<Rightarrow> failure + (nat \<times> token_state)" where
  "mintCreditBatch s sender now pid amt vintage standard ipfs to =
     (if sender \<noteq> tk_owner s then Inl (Revert ''Ownable: caller is not the owner'')
      else if pid = 0 then Inl (Revert ''Invalid project ID'')
      else if amt = 0 then Inl (Revert ''Amount must be greater than 0'')
      else if vintage = 0 then Inl (Revert ''Invalid vintage year'')
      else if to = 0 then Inl (Revert ''Invalid recipient address'')
      else if standard = [] then Inl (Revert ''Verification standard required'')
      else if batchIdCounter s + 1 > MAX_UINT256 then Inl Panic_0x11
      else
        (let newBatchId = batchIdCounter s + 1;
             newBatch = \<lparr>cb_projectId = pid, cb_amount = amt, cb_vintage = vintage,
                cb_verificationStandard = standard, cb_ipfsMetadata = ipfs,
                cb_isRetired = False, cb_createdAt = now, cb_originalOwner = to\<rparr>;
             s1 = s\<lparr>batchIdCounter := newBatchId,
                    creditBatches := (creditBatches s)(newBatchId := newBatch),
                    ownerBatches := (ownerBatches s)(to := ownerBatches s to @ [newBatchId]),
                    projectBatches := (projectBatches s)(pid := projectBatches s pid @ [newBatchId])\<rparr>
         in if amt * 10 ^ decimals > MAX_UINT256 then Inl Panic_0x11
            else (case erc20_mint s1 to (amt * 10 ^ decimals) of
                    Inl e \<Rightarrow> Inl e
                  | Inr s2 \<Rightarrow>
                      if totalIssuedCredits s2 + amt > MAX_UINT256 then Inl Panic_0x11
                      else Inr (newBatchId, s2\<lparr>totalIssuedCredits := totalIssuedCredits s2 + amt\<rparr>))))"

text \<open>The loop of \<^verbatim>\<open>getTotalRetiredFromBatch\<close>: \<^verbatim>\<open>total += retirements[i].amount\<close>.\<close>

fun retired_loop :: "RetirementInfo list \<Rightarrow> nat \<Rightarrow> failure + nat" where
  "retired_loop [] acc = Inr acc"
| "retired_loop (r # rs) acc =
     (if acc + ri_amount r > MAX_UINT256 then Inl Panic_0x11
      else retired_loop rs (acc + ri_amount r))"

definition getTotalRetiredFromBatch :: "token_state \<Rightarrow> nat \<Rightarrow> failure + nat" where
  "getTotalRetiredFromBatch s bid =
     (if validBatchId s bid then retired_loop (batchRetirements s bid) 0
      else Inl (Revert ''Invalid batch ID''))"

definition retireCredits ::
  "token_state \<Rightarrow> address \<Rightarrow> nat \<Rightarrow> nat \<Rightarrow> nat \<Rightarrow> string \<Rightarrow> failure + token_state" where
  "retireCredits s sender now bid amt reason =
     (if validBatchId s bid then
        (if amt = 0 then Inl (Revert ''Amount must be greater than 0'')
         else if reason = [] then Inl (Revert ''Retirement reason required'')
         else if cb_isRetired (creditBatches s bid) then Inl (Revert ''Batch already retired'')
         else if amt * 10 ^ decimals > MAX_UINT256 then Inl Panic_0x11
         else if tk_balances s sender < amt * 10 ^ decimals then Inl (Revert ''Insufficient balance'')
         else
           (case erc20_burn s sender (amt * 10 ^ decimals) of
              Inl e \<Rightarrow> Inl e
            | Inr s1 \<Rightarrow>
                (let retirement = \<lparr>ri_batchId = bid, ri_amount = amt, ri_reason = reason,
                       ri_retiredBy = sender, ri_timestamp = now\<rparr>;
                     s2 = s1\<lparr>batchRetirements :=
                              (batchRetirements s1)(bid := batchRetirements s1 bid @ [retirement])\<rparr>
                 in if totalRetiredCredits s2 sender + amt > MAX_UINT256 then Inl Panic_0x11
                    else if totalRetiredCreditsGlobal s2 + amt > MAX_UINT256 then Inl Panic_0x11
                    else
                      (let s3 = s2\<lparr>totalRetiredCredits :=
                                     (totalRetiredCredits s2)(sender := totalRetiredCredits s2 sender + amt),
                                   totalRetiredCreditsGlobal := totalRetiredCreditsGlobal s2 + amt\<rparr>
                       in case getTotalRetiredFromBatch s3 bid of
                            Inl e \<Rightarrow> Inl e
                          | Inr retired \<Rightarrow>
                              if retired \<ge> cb_amount (creditBatches s3 bid)
                              then Inr (s3\<lparr>creditBatches :=
                                     (creditBatches s3)(bid := (creditBatches s3 bid)\<lparr>cb_isRetired := True\<rparr>)\<rparr>)
                              else Inr s3))))
      else Inl (Revert ''Invalid batch ID''))"

definition updateBatchMetadata :: "token_state \<Rightarrow> address \<Rightarrow> nat \<Rightarrow> string \<Rightarrow> failure + token_state" where
  "updateBatchMetadata s sender bid newIpfs =
     (if sender \<noteq> tk_owner s then Inl (Revert ''Ownable: caller is not the owner'')
      else if validBatchId s bid then
        (if newIpfs = [] then Inl (Revert ''IPFS metadata cannot be empty'')
         else Inr (s\<lparr>creditBatches :=
                (creditBatches s)(bid := (creditBatches s bid)\<lparr>cb_ipfsMetadata := newIpfs\<rparr>)\<rparr>))
      else Inl (Revert ''Invalid batch ID''))"

text \<open>
  The state-changing external functions of the token as calls, and a run of calls: a call
  that fails is reverted and leaves the state it found.
\<close>

datatype token_call =
    MintCreditBatch nat nat nat string string address
  | RetireCredits nat nat string
  | UpdateBatchMetadata nat string
  | Transfer address nat
  | Approve address nat
  | TransferFrom address address nat
  | IncreaseAllowance address nat
  | DecreaseAllowance address nat
  | Burn nat
  | BurnFrom address nat
  | Pause
  | Unpause
  | TokenTransferOwnership address
  | TokenRenounceOwnership

fun token_step :: "token_state \<Rightarrow> address \<Rightarrow> nat \<Rightarrow> token_call \<Rightarrow> failure + token_state" where
  "token_step s sender now (MintCreditBatch pid amt vintage standard ipfs to) =
     (case mintCreditBatch s sender now pid amt vintage standard ipfs to of
        Inl e \<Rightarrow> Inl e
      | Inr (batchId, s') \<Rightarrow> Inr s')"
| "token_step s sender now (RetireCredits bid amt reason) = retireCredits s sender now bid amt reason"
| "token_step s sender now (UpdateBatchMetadata bid newIpfs) = updateBatchMetadata s sender bid newIpfs"
| "token_step s sender now (Transfer to amt) = transfer s sender to amt"
| "token_step s sender now (Approve spender amt) = approve s sender spender amt"
| "token_step s sender now (TransferFrom from to amt) = transferFrom s sender from to amt"
| "token_step s sender now (IncreaseAllowance spender addedValue) =
     increaseAllowance s sender spender addedValue"
| "token_step s sender now (DecreaseAllowance spender subtractedValue) =
     decreaseAllowance s sender spender subtractedValue"
| "token_step s sender now (Burn amt) = burn s sender amt"
| "token_step s sender now (BurnFrom account amt) = burnFrom s sender account amt"
| "token_step s sender now Pause = pause s sender"
| "token_step s sender now Unpause = unpause s sender"
| "token_step s sender now (TokenTransferOwnership newOwner) = transferOwnership s sender newOwner"
| "token_step s sender now TokenRenounceOwnership = renounceOwnership s sender"

fun token_exec :: "token_state \<Rightarrow> address \<times> nat \<times> token_call \<Rightarrow> token_state" where
  "token_exec s (sender, now, call) =
     (case token_step s sender now call of Inl e \<Rightarrow> s | Inr s' \<Rightarrow> s')"

definition token_run :: "token_state \<Rightarrow> (address \<times> nat \<times> token_call) list \<Rightarrow> token_state" where
  "token_run s calls = foldl token_exec s calls"

text \<open>The two calls that \<^verbatim>\<open>ERC20Burnable\<close> adds to the interface.\<close>

fun is_burn :: "address \<times> nat \<times> token_call \<Rightarrow> bool" where
  "is_burn (sender, now, Burn amt) = True"
| "is_burn (sender, now, BurnFrom account amt) = True"
| "is_burn (sender, now, call) = False"

text \<open>
  Conservation in the token's units (one credit is \<open>10 ^ decimals\<close> units): the
  balances sum to the total supply, and the supply plus the retired credits are the
  issued credits.
\<close>

definition conserved :: "token_state \<Rightarrow> bool" where
  "conserved s =
     (sum (tk_balances s) UNIV = tk_totalSupply s \<and> tk_totalSupply s \<le> MAX_UINT256 \<and>
      tk_totalSupply s + totalRetiredCreditsGlobal s * 10 ^ decimals
        = totalIssuedCredits s * 10 ^ decimals)"

section \<open>ProjectRegistry\<close>

datatype ProjectStatus = StatusPending | StatusApproved | StatusActive | StatusCompleted | StatusSuspended

datatype EcosystemType = Mangrove | Seagrass | SaltMarsh

record Project =
  pr_id :: nat
  pr_name :: string
  pr_description :: string
  pr_ecosystemType :: EcosystemType
  pr_location :: string
  pr_areaInHectares :: nat
  pr_projectOwner :: address
  pr_communityWallets :: "address list"
  pr_verifiers :: "address list"
  pr_status :: ProjectStatus
  pr_createdAt :: nat
  pr_approvedAt :: nat
  pr_ipfsHashMetadata :: string
  pr_estimatedCarbonCredits :: nat
  pr_totalCarbonCredits :: nat
  pr_isActive :: bool

record registry_state =
  rg_owner :: address
  projectIdCounter :: nat
  projects :: "nat \<Rightarrow> Project"
  ownerProjects :: "address \<Rightarrow> nat list"
  rg_authorizedVerifiers :: "address \<Rightarrow> bool"

definition empty_project :: Project where
  "empty_project = \<lparr>pr_id = 0, pr_name = [], pr_description = [], pr_ecosystemType = Mangrove,
     pr_location = [], pr_areaInHectares = 0, pr_projectOwner = 0, pr_communityWallets = [],
     pr_verifiers = [], pr_status = StatusPending, pr_createdAt = 0, pr_approvedAt = 0,
     pr_ipfsHashMetadata = [], pr_estimatedCarbonCredits = 0, pr_totalCarbonCredits = 0,
     pr_isActive = False\<rparr>"

definition registry_init :: "address \<Rightarrow> registry_state" where
  "registry_init deployer = \<lparr>rg_owner = deployer, projectIdCounter = 0,
     projects = (\<lambda>_. empty_project), ownerProjects = (\<lambda>_. []),
     rg_authorizedVerifiers = (\<lambda>_. False)\<rparr>"

definition projectExists :: "registry_state \<Rightarrow> nat \<Rightarrow> bool" where
  "projectExists rg pid = (pid > 0 \<and> pid \<le> projectIdCounter rg)"

definition registerProject ::
  "registry_state \<Rightarrow> address \<Rightarrow> nat \<Rightarrow> string \<Rightarrow> string \<Rightarrow> EcosystemType \<Rightarrow> string \<Rightarrow> nat
     \<Rightarrow> address list \<Rightarrow> string \<Rightarrow> nat \<Rightarrow> failure + (nat \<times> registry_state)" where
  "registerProject rg sender now name description ecosystemType location areaInHectares
       communityWallets ipfsHashMetadata estimatedCarbonCredits =
     (if name = [] then Inl (Revert ''Project name cannot be empty'')
      else if location = [] then Inl (Revert ''Location cannot be empty'')
      else if areaInHectares = 0 then Inl (Revert ''Area must be greater than 0'')
      else if estimatedCarbonCredits = 0 then Inl (Revert ''Estimated credits must be greater than 0'')
      else if projectIdCounter rg + 1 > MAX_UINT256 then Inl Panic_0x11
      else
        (let newProjectId = projectIdCounter rg + 1;
             newProject = (projects rg newProjectId)\<lparr>pr_id := newProjectId, pr_name := name,
                pr_description := description, pr_ecosystemType := ecosystemType,
                pr_location := location, pr_areaInHectares := areaInHectares,
                pr_projectOwner := sender, pr_communityWallets := communityWallets,
                pr_status := StatusPending, pr_createdAt := now,
                pr_ipfsHashMetadata := ipfsHashMetadata,
                pr_estimatedCarbonCredits := estimatedCarbonCredits, pr_isActive := True\<rparr>
         in Inr (newProjectId,
              rg\<lparr>projectIdCounter := newProjectId,
                 projects := (projects rg)(newProjectId := newProject),
                 ownerProjects := (ownerProjects rg)(sender := ownerProjects rg sender @ [newProjectId])\<rparr>)))"

definition registry_addVerifier :: "registry_state \<Rightarrow> address \<Rightarrow> address \<Rightarrow> failure + registry_state" where
  "registry_addVerifier rg sender verifier =
     (if sender \<noteq> rg_owner rg then Inl (Revert ''Ownable: caller is not the owner'')
      else if verifier = 0 then Inl (Revert ''Invalid verifier address'')
      else Inr (rg\<lparr>rg_authorizedVerifiers := (rg_authorizedVerifiers rg)(verifier := True)\<rparr>))"

definition updateTotalCarbonCredits ::
  "registry_state \<Rightarrow> address \<Rightarrow> nat \<Rightarrow> nat \<Rightarrow> failure + registry_state" where
  "updateTotalCarbonCredits rg sender pid credits =
     (if rg_authorizedVerifiers rg sender \<or> sender = rg_owner rg then
        (if projectExists rg pid
         then Inr (rg\<lparr>projects := (projects rg)(pid := (projects rg pid)\<lparr>pr_totalCarbonCredits := credits\<rparr>)\<rparr>)
         else Inl (Revert ''Project does not exist''))
      else Inl (Revert ''Not authorized verifier''))"

definition getProject :: "registry_state \<Rightarrow> nat \<Rightarrow> failure + Project" where
  "getProject rg pid =
     (if projectExists rg pid then Inr (projects rg pid)
      else Inl (Revert ''Project does not exist''))"

section \<open>VerificationOracle\<close>

datatype DataSource = Community | Satellite | Drone | ThirdParty

datatype VerificationStatus = Pending | Verified | Rejected | RequiresReview

record VerificationData =
  vd_projectId :: nat
  vd_source :: DataSource
  vd_ipfsHash :: string
  vd_description :: string
  vd_submitter :: address
  vd_timestamp :: nat
  vd_status :: VerificationStatus
  vd_notes :: string
  vd_carbonCreditsEstimate :: nat

record ProjectVerification =
  pv_projectId :: nat
  verificationIds :: "nat list"
  communityDataCount :: nat
  satelliteDataCount :: nat
  droneDataCount :: nat
  thirdPartyDataCount :: nat
  verifiedDataCount :: nat
  isCompletelyVerified :: bool
  finalCarbonCredits :: nat
  lastUpdateTimestamp :: nat

text \<open>
  The oracle's storage; \<open>vo_address\<close> is the oracle's own address, the
  \<^verbatim>\<open>msg.sender\<close> of its calls into the registry and the token.
\<close>

record oracle_state =
  vo_address :: address
  vo_owner :: address
  verificationData :: "nat \<Rightarrow> VerificationData"
  projectVerifications :: "nat \<Rightarrow> ProjectVerification"
  vo_authorizedVerifiers :: "address \<Rightarrow> bool"
  minimumDataRequirements :: "DataSource \<Rightarrow> nat"
  verificationWeights :: "DataSource \<Rightarrow> nat"
  verificationIdCounter :: nat

text \<open>
  The oracle with the two contracts its constructor binds it to (the constructor's two
  \<^verbatim>\<open>require\<close>s, that neither address is zero, hold of every deployed oracle).
\<close>

record world =
  the_oracle :: oracle_state
  the_registry :: registry_state
  the_token :: token_state

definition VERIFICATION_THRESHOLD :: nat where
  "VERIFICATION_THRESHOLD = 7000"

definition empty_data :: VerificationData where
  "empty_data = \<lparr>vd_projectId = 0, vd_source = Community, vd_ipfsHash = [], vd_description = [],
     vd_submitter = 0, vd_timestamp = 0, vd_status = Pending, vd_notes = [],
     vd_carbonCreditsEstimate = 0\<rparr>"

definition empty_verification :: ProjectVerification where
  "empty_verification = \<lparr>pv_projectId = 0, verificationIds = [], communityDataCount = 0,
     satelliteDataCount = 0, droneDataCount = 0, thirdPartyDataCount = 0, verifiedDataCount = 0,
     isCompletelyVerified = False, finalCarbonCredits = 0, lastUpdateTimestamp = 0\<rparr>"

fun default_minimum :: "DataSource \<Rightarrow> nat" where
  "default_minimum Community = 3"
| "default_minimum Satellite = 2"
| "default_minimum Drone = 1"
| "default_minimum ThirdParty = 1"

fun default_weight :: "DataSource \<Rightarrow> nat" where
  "default_weight Community = 3000"
| "default_weight Satellite = 3500"
| "default_weight Drone = 2500"
| "default_weight ThirdParty = 1000"

definition oracle_init :: "address \<Rightarrow> address \<Rightarrow> oracle_state" where
  "oracle_init self deployer = \<lparr>vo_address = self, vo_owner = deployer,
     verificationData = (\<lambda>_. empty_data), projectVerifications = (\<lambda>_. empty_verification),
     vo_authorizedVerifiers = (\<lambda>_. False), minimumDataRequirements = default_minimum,
     verificationWeights = default_weight, verificationIdCounter = 0\<rparr>"

text \<open>The \<^verbatim>\<open>if\<close> chain of \<^verbatim>\<open>submitVerificationData\<close> that counts the submission by its source.\<close>

fun count_source :: "ProjectVerification \<Rightarrow> DataSource \<Rightarrow> failure + ProjectVerification" where
  "count_source pv Community =
     (if communityDataCount pv + 1 > MAX_UINT256 then Inl Panic_0x11
      else Inr (pv\<lparr>communityDataCount := communityDataCount pv + 1\<rparr>))"
| "count_source pv Satellite =
     (if satelliteDataCount pv + 1 > MAX_UINT256 then Inl Panic_0x11
      else Inr (pv\<lparr>satelliteDataCount := satelliteDataCount pv + 1\<rparr>))"
| "count_source pv Drone =
     (if droneDataCount pv + 1 > MAX_UINT256 then Inl Panic_0x11
      else Inr (pv\<lparr>droneDataCount := droneDataCount pv + 1\<rparr>))"
| "count_source pv ThirdParty =
     (if thirdPartyDataCount pv + 1 > MAX_UINT256 then Inl Panic_0x11
      else Inr (pv\<lparr>thirdPartyDataCount := thirdPartyDataCount pv + 1\<rparr>))"

definition submitVerificationData ::
  "world \<Rightarrow> address \<Rightarrow> nat \<Rightarrow> nat \<Rightarrow> DataSource \<Rightarrow> string \<Rightarrow> string \<Rightarrow> nat
     \<Rightarrow> failure + (nat \<times> world)" where
  "submitVerificationData w sender now pid source ipfsHash description estimate =
     (let vs = the_oracle w in
      if pid = 0 then Inl (Revert ''Invalid project ID'')
      else if ipfsHash = [] then Inl (Revert ''IPFS hash cannot be empty'')
      else if estimate = 0 then Inl (Revert ''Carbon credits estimate must be greater than 0'')
      else if verificationIdCounter vs + 1 > MAX_UINT256 then Inl Panic_0x11
      else
        (let verificationId = verificationIdCounter vs + 1;
             newData = (verificationData vs verificationId)\<lparr>vd_projectId := pid,
                vd_source := source, vd_ipfsHash := ipfsHash, vd_description := description,
                vd_submitter := sender, vd_timestamp := now, vd_status := Pending,
                vd_carbonCreditsEstimate := estimate\<rparr>;
             pv = projectVerifications vs pid;
             pv1 = (if pv_projectId pv = 0 then pv\<lparr>pv_projectId := pid\<rparr> else pv);
             pv2 = pv1\<lparr>verificationIds := verificationIds pv1 @ [verificationId]\<rparr>
         in case count_source pv2 source of
              Inl e \<Rightarrow> Inl e
            | Inr pv3 \<Rightarrow>
                Inr (verificationId,
                  w\<lparr>the_oracle := vs\<lparr>verificationIdCounter := verificationId,
                        verificationData := (verificationData vs)(verificationId := newData),
                        projectVerifications :=
                          (projectVerifications vs)(pid := pv3\<lparr>lastUpdateTimestamp := now\<rparr>)\<rparr>\<rparr>)))"

text \<open>The counter of a project's submissions from one source.\<close>

fun source_count :: "ProjectVerification \<Rightarrow> DataSource \<Rightarrow> nat" where
  "source_count pv Community = communityDataCount pv"
| "source_count pv Satellite = satelliteDataCount pv"
| "source_count pv Drone = droneDataCount pv"
| "source_count pv ThirdParty = thirdPartyDataCount pv"

definition hasMinimumData :: "oracle_state \<Rightarrow> nat \<Rightarrow> bool" where
  "hasMinimumData vs pid =
     (let pv = projectVerifications vs pid in
      communityDataCount pv \<ge> minimumDataRequirements vs Community \<and>
      satelliteDataCount pv \<ge> minimumDataRequirements vs Satellite \<and>
      droneDataCount pv \<ge> minimumDataRequirements vs Drone \<and>
      thirdPartyDataCount pv \<ge> minimumDataRequirements vs ThirdParty)"

text \<open>
  The first loop of \<^verbatim>\<open>_checkProjectVerificationCompletion\<close>, over the project's
  verification ids: it returns \<open>(totalWeight, verifiedWeight)\<close>.
\<close>

fun weight_loop :: "oracle_state \<Rightarrow> nat list \<Rightarrow> nat \<Rightarrow> nat \<Rightarrow> failure + (nat \<times> nat)" where
  "weight_loop vs [] totalWeight verifiedWeight = Inr (totalWeight, verifiedWeight)"
| "weight_loop vs (verificationId # ids) totalWeight verifiedWeight =
     (let d = verificationData vs verificationId;
          weight = verificationWeights vs (vd_source d)
      in if totalWeight + weight > MAX_UINT256 then Inl Panic_0x11
         else if vd_status d = Verified then
           (if verifiedWeight + weight > MAX_UINT256 then Inl Panic_0x11
            else weight_loop vs ids (totalWeight + weight) (verifiedWeight + weight))
         else weight_loop vs ids (totalWeight + weight) verifiedWeight)"

text \<open>The loop of \<^verbatim>\<open>_calculateFinalCarbonCredits\<close>: it returns \<open>(totalEstimate, totalWeight)\<close>.\<close>

fun estimate_loop :: "oracle_state \<Rightarrow> nat list \<Rightarrow> nat \<Rightarrow> nat \<Rightarrow> failure + (nat \<times> nat)" where
  "estimate_loop vs [] totalEstimate totalWeight = Inr (totalEstimate, totalWeight)"
| "estimate_loop vs (verificationId # ids) totalEstimate totalWeight =
     (let d = verificationData vs verificationId in
      if vd_status d = Verified then
        (let weight = verificationWeights vs (vd_source d) in
         if vd_carbonCreditsEstimate d * weight > MAX_UINT256 then Inl Panic_0x11
         else if totalEstimate + vd_carbonCreditsEstimate d * weight > MAX_UINT256 then Inl Panic_0x11
         else if totalWeight + weight > MAX_UINT256 then Inl Panic_0x11
         else estimate_loop vs ids (totalEstimate + vd_carbonCreditsEstimate d * weight)
                (totalWeight + weight))
      else estimate_loop vs ids totalEstimate totalWeight)"

definition calculateFinalCarbonCredits :: "oracle_state \<Rightarrow> nat \<Rightarrow> failure + nat" where
  "calculateFinalCarbonCredits vs pid =
     (case estimate_loop vs (verificationIds (projectVerifications vs pid)) 0 0 of
        Inl e \<Rightarrow> Inl e
      | Inr (totalEstimate, totalWeight) \<Rightarrow>
          Inr (if totalWeight > 0 then totalEstimate div totalWeight else 0))"

definition issueCarbonCredits :: "world \<Rightarrow> nat \<Rightarrow> nat \<Rightarrow> nat \<Rightarrow> failure + world" where
  "issueCarbonCredits w now pid amt =
     (case getProject (the_registry w) pid of
        Inl e \<Rightarrow> Inl e
      | Inr project \<Rightarrow>
          (case mintCreditBatch (the_token w) (vo_address (the_oracle w)) now pid amt now
                  ''Blue Carbon MRV Standard'' [] (pr_projectOwner project) of
             Inl e \<Rightarrow> Inl e
           | Inr (batchId, tk1) \<Rightarrow> Inr (w\<lparr>the_token := tk1\<rparr>)))"

definition checkProjectVerificationCompletion :: "world \<Rightarrow> nat \<Rightarrow> nat \<Rightarrow> failure + world" where
  "checkProjectVerificationCompletion w now pid =
     (let vs = the_oracle w; pv = projectVerifications vs pid in
      if hasMinimumData vs pid then
        (case weight_loop vs (verificationIds pv) 0 0 of
           Inl e \<Rightarrow> Inl e
         | Inr (totalWeight, verifiedWeight) \<Rightarrow>
             if verifiedWeight * 10000 > MAX_UINT256 then Inl Panic_0x11
             else if totalWeight = 0 then Inl Panic_0x12
             else if verifiedWeight * 10000 div totalWeight \<ge> VERIFICATION_THRESHOLD
                     \<and> \<not> isCompletelyVerified pv then
               (let vs1 = vs\<lparr>projectVerifications :=
                             (projectVerifications vs)(pid := pv\<lparr>isCompletelyVerified := True\<rparr>)\<rparr>
                in case calculateFinalCarbonCredits vs1 pid of
                     Inl e \<Rightarrow> Inl e
                   | Inr finalCredits \<Rightarrow>
                       (let vs2 = vs1\<lparr>projectVerifications :=
                                     (projectVerifications vs1)(pid :=
                                        (projectVerifications vs1 pid)\<lparr>finalCarbonCredits := finalCredits\<rparr>)\<rparr>
                        in case updateTotalCarbonCredits (the_registry w) (vo_address vs) pid finalCredits of
                             Inl e \<Rightarrow> Inl e
                           | Inr rg1 \<Rightarrow>
                               issueCarbonCredits (w\<lparr>the_oracle := vs2, the_registry := rg1\<rparr>) now pid finalCredits))
             else Inr w)
      else Inr w)"

text \<open>
  \<^verbatim>\<open>updateVerificationStatus\<close> in its two parts: \<open>status_update\<close> is the body up to the
  call of \<^verbatim>\<open>_checkProjectVerificationCompletion\<close> (the modifier, the \<^verbatim>\<open>require\<close>,
  the new status and notes, the count of verified data and the time stamp), and
  \<open>updateVerificationStatus\<close> runs the check on the state it leaves.
\<close>

definition status_update ::
  "world \<Rightarrow> address \<Rightarrow> nat \<Rightarrow> nat \<Rightarrow> VerificationStatus \<Rightarrow> string \<Rightarrow> failure + world" where
  "status_update w sender now vid newStatus notes =
     (let vs = the_oracle w in
      if vo_authorizedVerifiers vs sender \<or> sender = vo_owner vs then
        (if vid > 0 \<and> vid \<le> verificationIdCounter vs then
           (let d = verificationData vs vid;
                oldStatus = vd_status d;
                pid = vd_projectId d;
                vs1 = vs\<lparr>verificationData :=
                        (verificationData vs)(vid := d\<lparr>vd_status := newStatus, vd_notes := notes\<rparr>)\<rparr>;
                pv = projectVerifications vs1 pid
            in if oldStatus \<noteq> Verified \<and> newStatus = Verified \<and> verifiedDataCount pv + 1 > MAX_UINT256
               then Inl Panic_0x11
               else if oldStatus = Verified \<and> newStatus \<noteq> Verified \<and> verifiedDataCount pv = 0
               then Inl Panic_0x11
               else
                 (let pv1 = (if oldStatus \<noteq> Verified \<and> newStatus = Verified
                             then pv\<lparr>verifiedDataCount := verifiedDataCount pv + 1\<rparr>
                             else if oldStatus = Verified \<and> newStatus \<noteq> Verified
                             then pv\<lparr>verifiedDataCount := verifiedDataCount pv - 1\<rparr>
                             else pv)
                  in Inr (w\<lparr>the_oracle := vs1\<lparr>projectVerifications :=
                              (projectVerifications vs1)(pid := pv1\<lparr>lastUpdateTimestamp := now\<rparr>)\<rparr>\<rparr>)))
         else Inl (Revert ''Invalid verification ID''))
      else Inl (Revert ''Not authorized verifier''))"

definition updateVerificationStatus ::
  "world \<Rightarrow> address \<Rightarrow> nat \<Rightarrow> nat \<Rightarrow> VerificationStatus \<Rightarrow> string \<Rightarrow> failure + world" where
  "updateVerificationStatus w sender now vid newStatus notes =
     (case status_update w sender now vid newStatus notes of
        Inl e \<Rightarrow> Inl e
      | Inr w1 \<Rightarrow>
          checkProjectVerificationCompletion w1 now
            (vd_projectId (verificationData (the_oracle w1) vid)))"

definition addVerifier :: "world \<Rightarrow> address \<Rightarrow> address \<Rightarrow> failure + world" where
  "addVerifier w sender verifier =
     (if sender \<noteq> vo_owner (the_oracle w) then Inl (Revert ''Ownable: caller is not the owner'')
      else if verifier = 0 then Inl (Revert ''Invalid verifier address'')
      else Inr (w\<lparr>the_oracle := (the_oracle w)\<lparr>vo_authorizedVerifiers :=
                    (vo_authorizedVerifiers (the_oracle w))(verifier := True)\<rparr>\<rparr>))"

definition removeVerifier :: "world \<Rightarrow> address \<Rightarrow> address \<Rightarrow> failure + world" where
  "removeVerifier w sender verifier =
     (if sender \<noteq> vo_owner (the_oracle w) then Inl (Revert ''Ownable: caller is not the owner'')
      else Inr (w\<lparr>the_oracle := (the_oracle w)\<lparr>vo_authorizedVerifiers :=
                    (vo_authorizedVerifiers (the_oracle w))(verifier := False)\<rparr>\<rparr>))"

definition updateMinimumDataRequirements :: "world \<Rightarrow> address \<Rightarrow> DataSource \<Rightarrow> nat \<Rightarrow> failure + world" where
  "updateMinimumDataRequirements w sender source minimum =
     (if sender \<noteq> vo_owner (the_oracle w) then Inl (Revert ''Ownable: caller is not the owner'')
      else Inr (w\<lparr>the_oracle := (the_oracle w)\<lparr>minimumDataRequirements :=
                    (minimumDataRequirements (the_oracle w))(source := minimum)\<rparr>\<rparr>))"

definition updateVerificationWeights :: "world \<Rightarrow> address \<Rightarrow> DataSource \<Rightarrow> nat \<Rightarrow> failure + world" where
  "updateVerificationWeights w sender source weight =
     (if sender \<noteq> vo_owner (the_oracle w) then Inl (Revert ''Ownable: caller is not the owner'')
      else if weight > 10000 then Inl (Revert ''Weight cannot exceed 100%'')
      else Inr (w\<lparr>the_oracle := (the_oracle w)\<lparr>verificationWeights :=
                    (verificationWeights (the_oracle w))(source := weight)\<rparr>\<rparr>))"

definition oracle_transferOwnership :: "world \<Rightarrow> address \<Rightarrow> address \<Rightarrow> failure + world" where
  "oracle_transferOwnership w sender newOwner =
     (if sender \<noteq> vo_owner (the_oracle w) then Inl (Revert ''Ownable: caller is not the owner'')
      else if newOwner = 0 then Inl (Revert ''Ownable: new owner is the zero address'')
      else Inr (w\<lparr>the_oracle := (the_oracle w)\<lparr>vo_owner := newOwner\<rparr>\<rparr>))"

definition oracle_renounceOwnership :: "world \<Rightarrow> address \<Rightarrow> failure + world" where
  "oracle_renounceOwnership w sender =
     (if sender \<noteq> vo_owner (the_oracle w) then Inl (Revert ''Ownable: caller is not the owner'')
      else Inr (w\<lparr>the_oracle := (the_oracle w)\<lparr>vo_owner := 0\<rparr>\<rparr>))"

text \<open>
  The state-changing external functions of the oracle as calls, and a run of calls: a
  call that fails is reverted and leaves the state it found.
\<close>

datatype oracle_call =
    Submit nat DataSource string string nat
  | Decide nat VerificationStatus string
  | AddVerifier address
  | RemoveVerifier address
  | UpdateMinimum DataSource nat
  | UpdateWeight DataSource nat
  | TransferOwnership address
  | RenounceOwnership

fun oracle_step :: "world \<Rightarrow> address \<Rightarrow> nat \<Rightarrow> oracle_call \<Rightarrow> failure + world" where
  "oracle_step w sender now (Submit pid source ipfsHash description estimate) =
     (case submitVerificationData w sender now pid source ipfsHash description estimate of
        Inl e \<Rightarrow> Inl e
      | Inr (verificationId, w') \<Rightarrow> Inr w')"
| "oracle_step w sender now (Decide vid newStatus notes) =
     updateVerificationStatus w sender now vid newStatus notes"
| "oracle_step w sender now (AddVerifier verifier) = addVerifier w sender verifier"
| "oracle_step w sender now (RemoveVerifier verifier) = removeVerifier w sender verifier"
| "oracle_step w sender now (UpdateMinimum source minimum) =
     updateMinimumDataRequirements w sender source minimum"
| "oracle_step w sender now (UpdateWeight source weight) =
     updateVerificationWeights w sender source weight"
| "oracle_step w sender now (TransferOwnership newOwner) = oracle_transferOwnership w sender newOwner"
| "oracle_step w sender now RenounceOwnership = oracle_renounceOwnership w sender"

fun oracle_exec :: "world \<Rightarrow> address \<times> nat \<times> oracle_call \<Rightarrow> world" where
  "oracle_exec w (sender, now, call) =
     (case oracle_step w sender now call of Inl e \<Rightarrow> w | Inr w' \<Rightarrow> w')"

definition oracle_run :: "world \<Rightarrow> (address \<times> nat \<times> oracle_call) list \<Rightarrow> world" where
  "oracle_run w calls = foldl oracle_exec w calls"

text \<open>
  The issued quantity in the words of the specification: over the Accepted (Verified)
  submissions of the claim, the sum of claimed quantity times weight, divided (rounding
  down) by the sum of the weights.
\<close>

definition accepted_submissions :: "oracle_state \<Rightarrow> nat \<Rightarrow> nat list" where
  "accepted_submissions vs pid =
     filter (\<lambda>i. vd_status (verificationData vs i) = Verified)
       (verificationIds (projectVerifications vs pid))"

definition weight_of :: "oracle_state \<Rightarrow> nat \<Rightarrow> nat" where
  "weight_of vs i = verificationWeights vs (vd_source (verificationData vs i))"

definition weighted_average :: "oracle_state \<Rightarrow> nat \<Rightarrow> nat" where
  "weighted_average vs pid =
     (\<Sum>i\<leftarrow>accepted_submissions vs pid. vd_carbonCreditsEstimate (verificationData vs i) * weight_of vs i)
       div (\<Sum>i\<leftarrow>accepted_submissions vs pid. weight_of vs i)"

text \<open>
  The weights the threshold test compares, in the words of the specification: the total
  weight over the Accepted submissions of the claim, and the total weight over all its
  submissions.
\<close>

definition accepted_weight :: "oracle_state \<Rightarrow> nat \<Rightarrow> nat" where
  "accepted_weight vs pid = (\<Sum>i\<leftarrow>accepted_submissions vs pid. weight_of vs i)"

definition submitted_weight :: "oracle_state \<Rightarrow> nat \<Rightarrow> nat" where
  "submitted_weight vs pid = (\<Sum>i\<leftarrow>verificationIds (projectVerifications vs pid). weight_of vs i)"

section \<open>PaymentDistributor\<close>

record PaymentSplit =
  communityWallets :: "address list"
  communityPercentages :: "nat list"
  ngoWallets :: "address list"
  ngoPercentages :: "nat list"
  verifierWallets :: "address list"
  verifierPercentages :: "nat list"
  platformWallet :: address
  platformPercentage :: nat

record Sale =
  sale_projectId :: nat
  sale_batchId :: nat
  sale_amount :: nat
  sale_price :: nat
  sale_buyer :: address
  sale_seller :: address
  sale_timestamp :: nat
  isDistributed :: bool

text \<open>
  The distributor's storage, with \<open>pd_balance\<close> the Ether the contract holds
  (\<^verbatim>\<open>address(this).balance\<close>). An Ether transfer out of the contract succeeds when the
  contract holds the amount and the recipient accepts it; whether the recipient accepts
  (an externally owned account always does, a contract may refuse) is the argument
  \<open>accepted\<close> of the functions that send Ether. No call back into the contract during
  the transfer is modelled (\<^verbatim>\<open>nonReentrant\<close> guards the sending functions).
\<close>

record distributor_state =
  pd_owner :: address
  pd_balance :: nat
  projectPaymentSplits :: "nat \<Rightarrow> PaymentSplit"
  sales :: "nat \<Rightarrow> Sale"
  pendingWithdrawals :: "address \<Rightarrow> nat"
  carbonCreditToken :: address
  platformTreasury :: address
  defaultPlatformFee :: nat
  saleIdCounter :: nat

definition empty_split :: PaymentSplit where
  "empty_split = \<lparr>communityWallets = [], communityPercentages = [], ngoWallets = [],
     ngoPercentages = [], verifierWallets = [], verifierPercentages = [],
     platformWallet = 0, platformPercentage = 0\<rparr>"

definition empty_sale :: Sale where
  "empty_sale = \<lparr>sale_projectId = 0, sale_batchId = 0, sale_amount = 0, sale_price = 0,
     sale_buyer = 0, sale_seller = 0, sale_timestamp = 0, isDistributed = False\<rparr>"

definition distributor_deployed :: "address \<Rightarrow> address \<Rightarrow> address \<Rightarrow> distributor_state" where
  "distributor_deployed deployer tokenAddress treasury =
     \<lparr>pd_owner = deployer, pd_balance = 0,
      projectPaymentSplits = (\<lambda>_. empty_split), sales = (\<lambda>_. empty_sale),
      pendingWithdrawals = (\<lambda>_. 0), carbonCreditToken = tokenAddress,
      platformTreasury = treasury, defaultPlatformFee = 250, saleIdCounter = 0\<rparr>"

text \<open>The constructor: its two \<^verbatim>\<open>require\<close>s, then the state above.\<close>

definition distributor_init :: "address \<Rightarrow> address \<Rightarrow> address \<Rightarrow> failure + distributor_state" where
  "distributor_init deployer tokenAddress treasury =
     (if tokenAddress = 0 then Inl (Revert ''Invalid token address'')
      else if treasury = 0 then Inl (Revert ''Invalid treasury address'')
      else Inr (distributor_deployed deployer tokenAddress treasury))"

text \<open>One of the three validation loops: \<^verbatim>\<open>totalPercentage += percentages[i]\<close>.\<close>

fun percentage_loop :: "nat list \<Rightarrow> nat \<Rightarrow> failure + nat" where
  "percentage_loop [] totalPercentage = Inr totalPercentage"
| "percentage_loop (p # ps) totalPercentage =
     (if totalPercentage + p > MAX_UINT256 then Inl Panic_0x11
      else percentage_loop ps (totalPercentage + p))"

definition configurePaymentSplit ::
  "distributor_state \<Rightarrow> address \<Rightarrow> nat \<Rightarrow> address list \<Rightarrow> nat list \<Rightarrow> address list \<Rightarrow> nat list
     \<Rightarrow> address list \<Rightarrow> nat list \<Rightarrow> address \<Rightarrow> nat \<Rightarrow> failure + distributor_state" where
  "configurePaymentSplit s sender pid cWallets cPercentages nWallets nPercentages
       vWallets vPercentages pWallet pPercentage =
     (if sender \<noteq> pd_owner s then Inl (Revert ''Ownable: caller is not the owner'')
      else if pid = 0 then Inl (Revert ''Invalid project ID'')
      else if length cWallets \<noteq> length cPercentages then Inl (Revert ''Community arrays length mismatch'')
      else if length nWallets \<noteq> length nPercentages then Inl (Revert ''NGO arrays length mismatch'')
      else if length vWallets \<noteq> length vPercentages then Inl (Revert ''Verifier arrays length mismatch'')
      else
        (case and_then (and_then (percentage_loop cPercentages pPercentage)
                          (percentage_loop nPercentages)) (percentage_loop vPercentages) of
           Inl e \<Rightarrow> Inl e
         | Inr totalPercentage \<Rightarrow>
             if totalPercentage > 10000 then Inl (Revert ''Total percentage exceeds 100%'')
             else Inr (s\<lparr>projectPaymentSplits := (projectPaymentSplits s)(pid :=
                    \<lparr>communityWallets = cWallets, communityPercentages = cPercentages,
                     ngoWallets = nWallets, ngoPercentages = nPercentages,
                     verifierWallets = vWallets, verifierPercentages = vPercentages,
                     platformWallet = (if pWallet \<noteq> 0 then pWallet else platformTreasury s),
                     platformPercentage = (if pPercentage > 0 then pPercentage
                                           else defaultPlatformFee s)\<rparr>)\<rparr>)))"

text \<open>
  One of the three distribution loops of \<^verbatim>\<open>_distributePayment\<close>, over the wallets,
  reading the percentage at the same index: it returns the pending withdrawals.
\<close>

fun distribute_loop ::
  "(address \<Rightarrow> nat) \<Rightarrow> nat \<Rightarrow> address list \<Rightarrow> nat list \<Rightarrow> failure + (address \<Rightarrow> nat)" where
  "distribute_loop pending totalAmount [] percentages = Inr pending"
| "distribute_loop pending totalAmount (wallet # wallets) [] = Inl Panic_0x32"
| "distribute_loop pending totalAmount (wallet # wallets) (p # percentages) =
     (if totalAmount * p > MAX_UINT256 then Inl Panic_0x11
      else if totalAmount * p div 10000 > 0 then
        (if pending wallet + totalAmount * p div 10000 > MAX_UINT256 then Inl Panic_0x11
         else distribute_loop (pending(wallet := pending wallet + totalAmount * p div 10000))
                totalAmount wallets percentages)
      else distribute_loop pending totalAmount wallets percentages)"

definition distributePayment ::
  "distributor_state \<Rightarrow> nat \<Rightarrow> nat \<Rightarrow> nat \<Rightarrow> failure + distributor_state" where
  "distributePayment s saleId pid totalAmount =
     (let split = projectPaymentSplits s pid in
      case and_then (and_then
             (distribute_loop (pendingWithdrawals s) totalAmount
                (communityWallets split) (communityPercentages split))
             (\<lambda>pending. distribute_loop pending totalAmount (ngoWallets split) (ngoPercentages split)))
             (\<lambda>pending. distribute_loop pending totalAmount
                (verifierWallets split) (verifierPercentages split)) of
        Inl e \<Rightarrow> Inl e
      | Inr pending \<Rightarrow>
          if totalAmount * platformPercentage split > MAX_UINT256 then Inl Panic_0x11
          else if totalAmount * platformPercentage split div 10000 > 0
                  \<and> pending (platformWallet split) + totalAmount * platformPercentage split div 10000
                       > MAX_UINT256
          then Inl Panic_0x11
          else
            (let platformAmount = totalAmount * platformPercentage split div 10000;
                 pending1 = (if platformAmount > 0
                             then pending(platformWallet split := pending (platformWallet split) + platformAmount)
                             else pending)
             in Inr (s\<lparr>pendingWithdrawals := pending1,
                       sales := (sales s)(saleId := (sales s saleId)\<lparr>isDistributed := True\<rparr>)\<rparr>)))"

definition recordSaleAndDistribute ::
  "distributor_state \<Rightarrow> address \<Rightarrow> nat \<Rightarrow> bool \<Rightarrow> nat \<Rightarrow> nat \<Rightarrow> nat \<Rightarrow> nat \<Rightarrow> nat \<Rightarrow> address \<Rightarrow> address
     \<Rightarrow> failure + distributor_state" where
  "recordSaleAndDistribute s sender msg_value accepted now pid bid amt price buyer seller =
     (if pid = 0 then Inl (Revert ''Invalid project ID'')
      else if amt = 0 then Inl (Revert ''Amount must be greater than 0'')
      else if price = 0 then Inl (Revert ''Price must be greater than 0'')
      else if buyer = 0 then Inl (Revert ''Invalid buyer address'')
      else if seller = 0 then Inl (Revert ''Invalid seller address'')
      else if msg_value < price then Inl (Revert ''Insufficient payment'')
      else if saleIdCounter s + 1 > MAX_UINT256 then Inl Panic_0x11
      else
        (let saleId = saleIdCounter s + 1;
             sale = \<lparr>sale_projectId = pid, sale_batchId = bid, sale_amount = amt,
                sale_price = price, sale_buyer = buyer, sale_seller = seller,
                sale_timestamp = now, isDistributed = False\<rparr>;
             s1 = s\<lparr>pd_balance := pd_balance s + msg_value, saleIdCounter := saleId,
                    sales := (sales s)(saleId := sale)\<rparr>
         in case distributePayment s1 saleId pid price of
              Inl e \<Rightarrow> Inl e
            | Inr s2 \<Rightarrow>
                if msg_value > price then
                  (if accepted \<and> msg_value - price \<le> pd_balance s2
                   then Inr (s2\<lparr>pd_balance := pd_balance s2 - (msg_value - price)\<rparr>)
                   else Inl (Revert []))
                else Inr s2))"

text \<open>
  \<^verbatim>\<open>withdraw\<close> returns nothing in the source; the model returns, with the state, the
  amount it sent to the caller.
\<close>

definition withdraw :: "distributor_state \<Rightarrow> address \<Rightarrow> bool \<Rightarrow> failure + (nat \<times> distributor_state)" where
  "withdraw s sender accepted =
     (let amount = pendingWithdrawals s sender in
      if amount = 0 then Inl (Revert ''No funds to withdraw'')
      else
        (let s1 = s\<lparr>pendingWithdrawals := (pendingWithdrawals s)(sender := 0)\<rparr> in
         if accepted \<and> amount \<le> pd_balance s1
         then Inr (amount, s1\<lparr>pd_balance := pd_balance s1 - amount\<rparr>)
         else Inl (Revert ''Transfer failed'')))"

definition emergencyWithdraw ::
  "distributor_state \<Rightarrow> address \<Rightarrow> address \<Rightarrow> nat \<Rightarrow> bool \<Rightarrow> failure + distributor_state" where
  "emergencyWithdraw s sender recipient amount accepted =
     (if sender \<noteq> pd_owner s then Inl (Revert ''Ownable: caller is not the owner'')
      else if recipient = 0 then Inl (Revert ''Invalid recipient'')
      else if amount > pd_balance s then Inl (Revert ''Insufficient balance'')
      else if accepted then Inr (s\<lparr>pd_balance := pd_balance s - amount\<rparr>)
      else Inl (Revert ''Transfer failed''))"

definition updatePlatformTreasury :: "distributor_state \<Rightarrow> address \<Rightarrow> address \<Rightarrow> failure + distributor_state" where
  "updatePlatformTreasury s sender newTreasury =
     (if sender \<noteq> pd_owner s then Inl (Revert ''Ownable: caller is not the owner'')
      else if newTreasury = 0 then Inl (Revert ''Invalid treasury address'')
      else Inr (s\<lparr>platformTreasury := newTreasury\<rparr>))"

definition updateDefaultPlatformFee :: "distributor_state \<Rightarrow> address \<Rightarrow> nat \<Rightarrow> failure + distributor_state" where
  "updateDefaultPlatformFee s sender newFee =
     (if sender \<noteq> pd_owner s then Inl (Revert ''Ownable: caller is not the owner'')
      else if newFee > 1000 then Inl (Revert ''Fee cannot exceed 10%'')
      else Inr (s\<lparr>defaultPlatformFee := newFee\<rparr>))"

text \<open>
  The state-changing external functions of the distributor as calls (a sale carries its
  payment, a call that sends Ether whether the recipient accepts), and a run of calls: a
  call that fails is reverted and leaves the state it found.
\<close>

datatype distributor_call =
    ConfigurePaymentSplit nat "address list" "nat list" "address list" "nat list"
      "address list" "nat list" address nat
  | RecordSaleAndDistribute nat bool nat nat nat nat address address
  | Withdraw bool
  | EmergencyWithdraw address nat bool
  | UpdatePlatformTreasury address
  | UpdateDefaultPlatformFee nat

fun distributor_step ::
  "distributor_state \<Rightarrow> address \<Rightarrow> nat \<Rightarrow> distributor_call \<Rightarrow> failure + distributor_state" where
  "distributor_step s sender now (ConfigurePaymentSplit pid cWallets cPercentages nWallets
       nPercentages vWallets vPercentages pWallet pPercentage) =
     configurePaymentSplit s sender pid cWallets cPercentages nWallets nPercentages
       vWallets vPercentages pWallet pPercentage"
| "distributor_step s sender now (RecordSaleAndDistribute msg_value accepted pid bid amt price
       buyer seller) =
     recordSaleAndDistribute s sender msg_value accepted now pid bid amt price buyer seller"
| "distributor_step s sender now (Withdraw accepted) =
     (case withdraw s sender accepted of Inl e \<Rightarrow> Inl e | Inr (amount, s') \<Rightarrow> Inr s')"
| "distributor_step s sender now (EmergencyWithdraw recipient amount accepted) =
     emergencyWithdraw s sender recipient amount accepted"
| "distributor_step s sender now (UpdatePlatformTreasury newTreasury) =
     updatePlatformTreasury s sender newTreasury"
| "distributor_step s sender now (UpdateDefaultPlatformFee newFee) =
     updateDefaultPlatformFee s sender newFee"

fun distributor_exec :: "distributor_state \<Rightarrow> address \<times> nat \<times> distributor_call \<Rightarrow> distributor_state" where
  "distributor_exec s (sender, now, call) =
     (case distributor_step s sender now call of Inl e \<Rightarrow> s | Inr s' \<Rightarrow> s')"

definition distributor_run ::
  "distributor_state \<Rightarrow> (address \<times> nat \<times> distributor_call) list \<Rightarrow> distributor_state" where
  "distributor_run s calls = foldl distributor_exec s calls"

text \<open>
  What a split holds and what a sale at a price allots under it: all stored percentages
  (the platform's last), all stored wallets, the sum of the percentages, and the sum of
  the shares \<^verbatim>\<open>price * percentage / 10000\<close>.
\<close>

definition all_percentages :: "PaymentSplit \<Rightarrow> nat list" where
  "all_percentages split =
     communityPercentages split @ ngoPercentages split @ verifierPercentages split
       @ [platformPercentage split]"

definition all_wallets :: "PaymentSplit \<Rightarrow> address list" where
  "all_wallets split =
     communityWallets split @ ngoWallets split @ verifierWallets split @ [platformWallet split]"

definition split_total :: "PaymentSplit \<Rightarrow> nat" where
  "split_total split = sum_list (all_percentages split)"

definition shares :: "nat \<Rightarrow> nat list \<Rightarrow> nat" where
  "shares totalAmount ps = (\<Sum>p\<leftarrow>ps. totalAmount * p div 10000)"

text \<open>
  What a distribution of \<^verbatim>\<open>totalAmount\<close> over pairs of a wallet and a percentage allots
  to the address \<open>a\<close>: the sum of the shares \<^verbatim>\<open>totalAmount * percentage / 10000\<close> of the
  pairs whose wallet is \<open>a\<close> (a wallet may occur in several pairs).
\<close>

definition allotted :: "nat \<Rightarrow> (address \<times> nat) list \<Rightarrow> address \<Rightarrow> nat" where
  "allotted totalAmount pairs a =
     sum_list (map (\<lambda>(wallet, p). if wallet = a then totalAmount * p div 10000 else 0) pairs)"

text \<open>
  The stored arrays of a split pair up (as \<^verbatim>\<open>configurePaymentSplit\<close> stores them), and
  at the price no product and no pending balance leaves \<^verbatim>\<open>uint256\<close>.
\<close>

definition split_wellformed :: "PaymentSplit \<Rightarrow> bool" where
  "split_wellformed split =
     (length (communityWallets split) = length (communityPercentages split) \<and>
      length (ngoWallets split) = length (ngoPercentages split) \<and>
      length (verifierWallets split) = length (verifierPercentages split))"

definition distribution_fits :: "distributor_state \<Rightarrow> nat \<Rightarrow> nat \<Rightarrow> bool" where
  "distribution_fits s pid price =
     (let split = projectPaymentSplits s pid in
      split_wellformed split \<and>
      list_all (\<lambda>p. price * p \<le> MAX_UINT256) (all_percentages split) \<and>
      list_all (\<lambda>a. pendingWithdrawals s a + shares price (all_percentages split) \<le> MAX_UINT256)
        (all_wallets split))"

section \<open>Scenarios\<close>

text \<open>
  The deployment of the repository's test: the deployer 1, the project owner 2, the
  verifier 3, the community members 4 and 5, the buyer 6, the oracle at address 10, the
  distributor's token address 9 and treasury 8. \<open>demo_registry\<close> is the registry after
  the project owner registered project 1 and the deployer authorized the oracle;
  \<open>demo_world\<close> has in addition the token's ownership transferred to the oracle and the
  verifier 3 added to the oracle.
\<close>

definition demo_registry :: registry_state where
  "demo_registry = (registry_init 1)\<lparr>projectIdCounter := 1,
     projects := (\<lambda>_. empty_project)(1 := empty_project\<lparr>pr_id := 1, pr_name := ''Mangrove'',
        pr_description := ''Restoration'', pr_ecosystemType := Mangrove, pr_location := ''Mumbai'',
        pr_areaInHectares := 100, pr_projectOwner := 2, pr_communityWallets := [4, 5],
        pr_status := StatusPending, pr_createdAt := 1000, pr_ipfsHashMetadata := ''ipfs'',
        pr_estimatedCarbonCredits := 1000, pr_isActive := True\<rparr>),
     ownerProjects := (\<lambda>_. [])(2 := [1]),
     rg_authorizedVerifiers := (\<lambda>_. False)(10 := True)\<rparr>"

definition demo_world :: world where
  "demo_world = \<lparr>the_oracle = (oracle_init 10 1)\<lparr>vo_authorizedVerifiers := (\<lambda>_. False)(3 := True)\<rparr>,
     the_registry = demo_registry, the_token = (token_init 1)\<lparr>tk_owner := 10\<rparr>\<rparr>"

text \<open>The seven submissions of the test, which meet the default minimum of every source.\<close>

definition demo_submissions :: "(address \<times> nat \<times> oracle_call) list" where
  "demo_submissions =
     [(4, 1001, Submit 1 Community ''QmCommunity1'' ''Data1'' 100),
      (5, 1002, Submit 1 Community ''QmCommunity2'' ''Data2'' 100),
      (1, 1003, Submit 1 Community ''QmCommunity3'' ''Data3'' 100),
      (1, 1004, Submit 1 Satellite ''QmSatellite1'' ''Satellite1'' 95),
      (1, 1005, Submit 1 Satellite ''QmSatellite2'' ''Satellite2'' 105),
      (1, 1006, Submit 1 Drone ''QmDrone1'' ''Drone1'' 98),
      (1, 1007, Submit 1 ThirdParty ''QmThirdParty1'' ''ThirdParty1'' 102)]"

definition demo_submitted :: world where
  "demo_submitted = oracle_run demo_world demo_submissions"

text \<open>
  The verifier accepts the submissions in order. After four the verified weight is
  12500 of 19500 (64%); the fifth brings it to 16000 (82%) and finalizes.
\<close>

definition demo_four_verified :: world where
  "demo_four_verified = oracle_run demo_submitted
     [(3, 2001, Decide 1 Verified ''Verified''), (3, 2002, Decide 2 Verified ''Verified''),
      (3, 2003, Decide 3 Verified ''Verified''), (3, 2004, Decide 4 Verified ''Verified'')]"

definition demo_finalized :: world where
  "demo_finalized = oracle_exec demo_four_verified (3, 2005, Decide 5 Verified ''Verified'')"

text \<open>The owner sets the weight of every source to zero after the seven submissions.\<close>

definition demo_zero_weights :: world where
  "demo_zero_weights = oracle_run demo_submitted
     [(1, 1500, UpdateWeight Community 0), (1, 1501, UpdateWeight Satellite 0),
      (1, 1502, UpdateWeight Drone 0), (1, 1503, UpdateWeight ThirdParty 0)]"

definition demo_distributor :: distributor_state where
  "demo_distributor = distributor_deployed 1 9 8"

text \<open>
  The distributor after the owner configured a split for project 1 as the test does
  (\<open>demo_configured\<close>); after a split of 5000 for the wallet 4 and 1000 for the
  platform (\<open>demo_half_configured\<close>), then a sale by the buyer at the price 10000
  (\<open>demo_sold\<close>), then the owner's emergency withdrawal of the 10000
  (\<open>demo_drained\<close>); and after a split of 10000 for the wallet 4 with the platform
  percentage 0 (\<open>demo_over_configured\<close>), then a sale at the price 10000
  (\<open>demo_over_sold\<close>).
\<close>

definition demo_configured :: distributor_state where
  "demo_configured = distributor_exec demo_distributor
     (1, 2900, ConfigurePaymentSplit 1 [4, 5] [3000, 2000] [1] [2000] [3] [1500] 1 1500)"

definition demo_half_configured :: distributor_state where
  "demo_half_configured = distributor_exec demo_distributor
     (1, 2900, ConfigurePaymentSplit 1 [4] [5000] [] [] [] [] 0 1000)"

definition demo_sold :: distributor_state where
  "demo_sold = distributor_exec demo_half_configured
     (6, 3000, RecordSaleAndDistribute 10000 True 1 1 50 10000 6 2)"

definition demo_drained :: distributor_state where
  "demo_drained = distributor_exec demo_sold (1, 3100, EmergencyWithdraw 1 10000 True)"

definition demo_over_configured :: distributor_state where
  "demo_over_configured = distributor_exec demo_distributor
     (1, 2900, ConfigurePaymentSplit 1 [4] [10000] [] [] [] [] 0 0)"

definition demo_over_sold :: distributor_state where
  "demo_over_sold = distributor_exec demo_over_configured
     (6, 3000, RecordSaleAndDistribute 10000 True 1 1 100 10000 6 2)"

text \<open>
  The token after its owner 1 minted a batch of one credit to the holder 2
  (\<open>demo_minted\<close>) and after the holder burned the credit (\<open>demo_burned\<close>); and after
  the owner minted batch 1 of 10 credits and batch 2 of 100 credits to the holder 2
  (\<open>demo_two_batches\<close>), who then retired 50 credits against batch 1
  (\<open>demo_over_retired\<close>).
\<close>

definition demo_minted :: token_state where
  "demo_minted = token_exec (token_init 1) (1, 100, MintCreditBatch 1 1 2024 ''VCS'' [] 2)"

definition demo_burned :: token_state where
  "demo_burned = token_exec demo_minted (2, 200, Burn (10 ^ 18))"

definition demo_two_batches :: token_state where
  "demo_two_batches = token_run (token_init 1)
     [(1, 100, MintCreditBatch 1 10 2024 ''VCS'' [] 2),
      (1, 101, MintCreditBatch 1 100 2024 ''VCS'' [] 2)]"

definition demo_over_retired :: token_state where
  "demo_over_retired = token_exec demo_two_batches (2, 200, RetireCredits 1 50 ''offset'')"

text \<open>The three contracts right after deployment: no project is registered.\<close>

definition fresh_world :: world where
  "fresh_world = \<lparr>the_oracle = oracle_init 10 1, the_registry = registry_init 1,
     the_token = token_init 1\<rparr>"

section \<open>Properties of the credit ledger\<close>

text \<open>The scenario states are reached by the calls that their descriptions name.\<close>

lemma demo_registry_reached:
  "and_then (registerProject (registry_init 1) 2 1000 ''Mangrove'' ''Restoration'' Mangrove
               ''Mumbai'' 100 [4, 5] ''ipfs'' 1000)
     (\<lambda>(p, rg1). registry_addVerifier rg1 1 10) = Inr demo_registry"
  by (simp add: registerProject_def registry_addVerifier_def registry_init_def demo_registry_def
      and_then_def MAX_UINT256_def Let_def)

lemma demo_world_reached:
  "and_then (transferOwnership (token_init 1) 1 10)
     (\<lambda>tk1. addVerifier \<lparr>the_oracle = oracle_init 10 1, the_registry = demo_registry, the_token = tk1\<rparr> 1 3)
   = Inr demo_world"
  by (simp add: transferOwnership_def addVerifier_def token_init_def oracle_init_def demo_world_def
      and_then_def)

lemma demo_distributor_reached: "distributor_init 1 9 8 = Inr demo_distributor"
  by (simp add: distributor_init_def demo_distributor_def)

lemmas token_defs = mintCreditBatch_def retireCredits_def erc20_mint_def erc20_burn_def burn_def
  getTotalRetiredFromBatch_def validBatchId_def token_init_def token_run_def decimals_def
  MAX_UINT256_def wrap256_def empty_batch_def conserved_def
  demo_minted_def demo_burned_def demo_two_batches_def demo_over_retired_def

lemma sum_fun_upd:
  fixes f :: "'a::finite \<Rightarrow> nat"
  shows "sum (f(a := v)) UNIV = sum f UNIV - f a + v"
proof -
  have "sum (f(a := v)) UNIV = (f(a := v)) a + sum (f(a := v)) (UNIV - {a})"
    by (rule sum.remove) auto
  also have "sum (f(a := v)) (UNIV - {a}) = sum f (UNIV - {a})"
    by (rule sum.cong) auto
  finally have upd: "sum (f(a := v)) UNIV = v + sum f (UNIV - {a})"
    by simp
  have "sum f UNIV = f a + sum f (UNIV - {a})"
    by (rule sum.remove) auto
  with upd show ?thesis
    by simp
qed

text \<open>
  Every call of the token's interface other than the two of \<^verbatim>\<open>ERC20Burnable\<close> keeps
  conservation: so does every run of such calls from the constructor's state.
\<close>

lemma sum_if_upd:
  fixes f :: "'a::finite \<Rightarrow> nat"
  shows "(\<Sum>x\<in>UNIV. if x = a then v else f x) = sum f UNIV - f a + v"
  using sum_fun_upd [of f a v] by (simp add: fun_upd_def)

lemma balance_le_sum:
  fixes f :: "'a::finite \<Rightarrow> nat"
  shows "f a \<le> sum f UNIV"
  by (rule member_le_sum) auto

lemma erc20_mint_conserved:
  assumes "sum (tk_balances s) UNIV = tk_totalSupply s" and "erc20_mint s to amt = Inr s'"
  shows "sum (tk_balances s') UNIV = tk_totalSupply s' \<and> tk_totalSupply s' = tk_totalSupply s + amt
     \<and> tk_totalSupply s' \<le> MAX_UINT256
     \<and> totalRetiredCreditsGlobal s' = totalRetiredCreditsGlobal s
     \<and> totalIssuedCredits s' = totalIssuedCredits s"
proof -
  from assms(2) have fit: "tk_totalSupply s + amt \<le> MAX_UINT256"
    and s': "s' = s\<lparr>tk_totalSupply := tk_totalSupply s + amt,
                  tk_balances := (tk_balances s)(to := wrap256 (tk_balances s to + amt))\<rparr>"
    by (auto simp: erc20_mint_def split: if_splits)
  have le: "tk_balances s to \<le> tk_totalSupply s"
    using balance_le_sum [of "tk_balances s" to] assms(1) by simp
  with fit have "wrap256 (tk_balances s to + amt) = tk_balances s to + amt"
    by (simp add: wrap256_def)
  with s' le assms(1) fit show ?thesis
    by (simp add: sum_fun_upd sum_if_upd)
qed

lemma erc20_burn_conserved:
  assumes "sum (tk_balances s) UNIV = tk_totalSupply s" and "erc20_burn s account amt = Inr s'"
  shows "sum (tk_balances s') UNIV = tk_totalSupply s' \<and> tk_totalSupply s' + amt = tk_totalSupply s
     \<and> totalRetiredCreditsGlobal s' = totalRetiredCreditsGlobal s
     \<and> totalIssuedCredits s' = totalIssuedCredits s
     \<and> batchRetirements s' = batchRetirements s \<and> creditBatches s' = creditBatches s
     \<and> batchIdCounter s' = batchIdCounter s \<and> totalRetiredCredits s' = totalRetiredCredits s"
proof -
  from assms(2) have enough: "amt \<le> tk_balances s account"
    and s': "s' = s\<lparr>tk_balances := (tk_balances s)(account := tk_balances s account - amt),
                  tk_totalSupply := (if amt \<le> tk_totalSupply s then tk_totalSupply s - amt
                                     else tk_totalSupply s + (MAX_UINT256 + 1) - amt)\<rparr>"
    by (auto simp: erc20_burn_def split: if_splits)
  have le: "tk_balances s account \<le> tk_totalSupply s"
    using balance_le_sum [of "tk_balances s" account] assms(1) by simp
  with s' enough assms(1) show ?thesis
    by (simp add: sum_fun_upd sum_if_upd)
qed

lemma erc20_transfer_conserved:
  assumes "sum (tk_balances s) UNIV = tk_totalSupply s" and "tk_totalSupply s \<le> MAX_UINT256"
      and "erc20_transfer s src to amt = Inr s'"
  shows "sum (tk_balances s') UNIV = tk_totalSupply s' \<and> tk_totalSupply s' = tk_totalSupply s
     \<and> totalRetiredCreditsGlobal s' = totalRetiredCreditsGlobal s
     \<and> totalIssuedCredits s' = totalIssuedCredits s"
proof -
  let ?b1 = "(tk_balances s)(src := tk_balances s src - amt)"
  from assms(3) have enough: "amt \<le> tk_balances s src"
    and s': "s' = s\<lparr>tk_balances := ?b1(to := wrap256 (?b1 to + amt))\<rparr>"
    by (auto simp: erc20_transfer_def Let_def split: if_splits)
  have le: "tk_balances s src \<le> tk_totalSupply s"
    using balance_le_sum [of "tk_balances s" src] assms(1) by simp
  have sum1: "sum ?b1 UNIV + amt = tk_totalSupply s"
    using enough le assms(1) by (simp add: sum_fun_upd sum_if_upd)
  have "?b1 to \<le> sum ?b1 UNIV"
    by (rule balance_le_sum)
  with sum1 assms(2) have nowrap: "wrap256 (?b1 to + amt) = ?b1 to + amt"
    and le1: "?b1 to \<le> sum ?b1 UNIV"
    by (simp_all add: wrap256_def)
  have "sum (?b1(to := ?b1 to + amt)) UNIV = sum ?b1 UNIV - ?b1 to + (?b1 to + amt)"
    by (rule sum_fun_upd)
  with le1 sum1 have "sum (?b1(to := ?b1 to + amt)) UNIV = tk_totalSupply s"
    by simp
  with s' nowrap show ?thesis
    by simp
qed

lemma erc20_spendAllowance_frame:
  assumes "erc20_spendAllowance s holder spender amt = Inr s'"
  shows "tk_balances s' = tk_balances s \<and> tk_totalSupply s' = tk_totalSupply s
     \<and> totalRetiredCreditsGlobal s' = totalRetiredCreditsGlobal s
     \<and> totalIssuedCredits s' = totalIssuedCredits s"
  using assms
  by (auto simp: erc20_spendAllowance_def erc20_approve_def Let_def split: if_splits)

lemma mint_conserved:
  assumes "conserved s" and "mintCreditBatch s sender now pid amt vintage standard ipfs to = Inr (b, s')"
  shows "conserved s'"
proof -
  let ?s1 = "s\<lparr>batchIdCounter := batchIdCounter s + 1,
      creditBatches := (creditBatches s)(batchIdCounter s + 1 :=
        \<lparr>cb_projectId = pid, cb_amount = amt, cb_vintage = vintage,
         cb_verificationStandard = standard, cb_ipfsMetadata = ipfs,
         cb_isRetired = False, cb_createdAt = now, cb_originalOwner = to\<rparr>),
      ownerBatches := (ownerBatches s)(to := ownerBatches s to @ [batchIdCounter s + 1]),
      projectBatches := (projectBatches s)(pid := projectBatches s pid @ [batchIdCounter s + 1])\<rparr>"
  from assms(2) obtain s2 where
    m: "erc20_mint ?s1 to (amt * 10 ^ decimals) = Inr s2"
    and s': "s' = s2\<lparr>totalIssuedCredits := totalIssuedCredits s2 + amt\<rparr>"
    by (auto simp: mintCreditBatch_def Let_def split: if_splits sum.splits)
  from assms(1) have "sum (tk_balances ?s1) UNIV = tk_totalSupply ?s1"
    by (simp add: conserved_def)
  from erc20_mint_conserved [OF this m] s' assms(1) show ?thesis
    by (simp add: conserved_def algebra_simps)
qed

lemma retire_conserved:
  assumes "conserved s" and "retireCredits s sender now bid amt reason = Inr s'"
  shows "conserved s'"
proof -
  from assms(2) obtain s1 where
    b: "erc20_burn s sender (amt * 10 ^ decimals) = Inr s1"
    and s': "tk_balances s' = tk_balances s1" "tk_totalSupply s' = tk_totalSupply s1"
        "totalRetiredCreditsGlobal s' = totalRetiredCreditsGlobal s1 + amt"
        "totalIssuedCredits s' = totalIssuedCredits s1"
    by (auto simp: retireCredits_def Let_def split: if_splits sum.splits)
  from assms(1) have "sum (tk_balances s) UNIV = tk_totalSupply s"
    by (simp add: conserved_def)
  from erc20_burn_conserved [OF this b] s' assms(1) show ?thesis
    by (auto simp: conserved_def algebra_simps)
qed

lemma token_step_conserved:
  assumes "conserved s" and "\<not> is_burn (sender, now, call)" and "token_step s sender now call = Inr s'"
  shows "conserved s'"
proof (cases call)
  case (MintCreditBatch pid amt vintage standard ipfs to)
  with assms show ?thesis
    by (auto split: sum.splits dest: mint_conserved)
next
  case (RetireCredits bid amt reason)
  with assms show ?thesis
    by (auto dest: retire_conserved)
next
  case (Transfer to amt)
  with assms erc20_transfer_conserved [of s sender to amt s'] show ?thesis
    by (auto simp: transfer_def conserved_def)
next
  case (TransferFrom src to amt)
  with assms obtain s1 where sp: "erc20_spendAllowance s src sender amt = Inr s1"
    and tr: "erc20_transfer s1 src to amt = Inr s'"
    by (auto simp: transferFrom_def split: sum.splits)
  from erc20_spendAllowance_frame [OF sp] assms(1) erc20_transfer_conserved [OF _ _ tr]
  show ?thesis
    by (auto simp: conserved_def)
next
  case (Burn amt)
  with assms show ?thesis by simp
next
  case (BurnFrom account amt)
  with assms show ?thesis by simp
qed (insert assms, auto simp: conserved_def updateBatchMetadata_def approve_def erc20_approve_def
      increaseAllowance_def decreaseAllowance_def pause_def unpause_def transferOwnership_def
      renounceOwnership_def split: if_splits)

lemma token_init_conserved: "conserved (token_init deployer)"
  by (simp add: conserved_def token_init_def)

lemma token_run_conserved:
  "conserved s \<Longrightarrow> \<not> list_ex is_burn calls \<Longrightarrow> conserved (token_run s calls)"
proof (induction calls arbitrary: s)
  case Nil
  then show ?case by (simp add: token_run_def)
next
  case (Cons c calls)
  obtain sender now call where c: "c = (sender, now, call)"
    by (cases c) auto
  from Cons.prems c have "conserved (token_exec s c)"
    by (auto split: sum.splits dest: token_step_conserved)
  from Cons.IH [OF this] Cons.prems(2) show ?case
    by (simp add: token_run_def)
qed

text \<open>
  C1 (conservation: the balances, in credit units, plus the retired quantities equal the
  issued quantities after every operation of the public interface). The token inherits
  \<^verbatim>\<open>ERC20Burnable\<close>, whose external \<^verbatim>\<open>burn\<close> destroys balance without recording a
  retirement. The owner 1 mints a batch of one credit to the holder 2, who burns the
  whole credit (\<open>10 ^ 18\<close> units): the sum of all balances and the total supply are 0,
  nothing is recorded as retired, and one credit stays recorded as issued, so
  \<open>0 + 0 \<noteq> 1\<close>. \<^verbatim>\<open>retireCredits\<close> burns and records; it and every other call keep
  conservation, as shown above.
\<close>

theorem burn_breaks_conservation:
  "conserved demo_minted
   \<and> totalIssuedCredits demo_minted = 1
   \<and> tk_balances demo_minted 2 = 10 ^ 18
   \<and> isl (burn demo_minted 2 (10 ^ 18)) = False
   \<and> sum (tk_balances demo_burned) UNIV = 0
   \<and> tk_totalSupply demo_burned = 0
   \<and> totalRetiredCreditsGlobal demo_burned = 0
   \<and> totalIssuedCredits demo_burned = 1
   \<and> conserved demo_burned = False"
  by (simp add: token_defs sum_fun_upd sum_if_upd)

text \<open>
  C2 (the retirements against a batch never exceed its minted quantity, and the batch is
  marked retired only when they equal it). \<^verbatim>\<open>retireCredits\<close> compares the quantity with
  the caller's balance only. The owner 1 mints batch 1 of 10 credits and batch 2 of 100
  credits to the holder 2, who then retires 50 credits against batch 1: the call
  succeeds, 50 credits are recorded as retired from a batch of 10, and the batch is
  marked retired.
\<close>

theorem retire_exceeds_batch_amount:
  "cb_amount (creditBatches demo_two_batches 1) = 10
   \<and> cb_isRetired (creditBatches demo_two_batches 1) = False
   \<and> getTotalRetiredFromBatch demo_two_batches 1 = Inr 0
   \<and> isl (retireCredits demo_two_batches 2 200 1 50 ''offset'') = False
   \<and> getTotalRetiredFromBatch demo_over_retired 1 = Inr 50
   \<and> cb_amount (creditBatches demo_over_retired 1) = 10
   \<and> cb_isRetired (creditBatches demo_over_retired 1) = True"
  by (simp add: token_defs)

section \<open>Properties of the payment distributor\<close>

lemmas distributor_defs = configurePaymentSplit_def recordSaleAndDistribute_def distributePayment_def
  withdraw_def emergencyWithdraw_def distributor_init_def distributor_deployed_def demo_distributor_def
  demo_configured_def demo_half_configured_def demo_sold_def demo_drained_def
  demo_over_configured_def demo_over_sold_def
  empty_split_def empty_sale_def and_then_def MAX_UINT256_def Let_def

lemma percentage_loop_Inr:
  "percentage_loop ps acc = Inr t \<Longrightarrow> t = acc + sum_list ps"
  by (induction ps acc rule: percentage_loop.induct) (auto split: if_splits)

text \<open>The validation itself is sound: a configuration whose arguments sum above 10000 is refused.\<close>

lemma configure_rejects_over_bound:
  assumes "pPercentage + sum_list cPercentages + sum_list nPercentages + sum_list vPercentages > 10000"
  shows "isl (configurePaymentSplit s sender pid cWallets cPercentages nWallets nPercentages
            vWallets vPercentages pWallet pPercentage)"
  using assms
  by (auto simp: configurePaymentSplit_def and_then_def split: sum.splits dest!: percentage_loop_Inr)

text \<open>
  C3 (a configuration above 10000 basis points is rejected, and every stored
  configuration, the stored platform percentage included, sums to at most 10000).
  \<^verbatim>\<open>configurePaymentSplit\<close> validates the sum with the platform percentage it is given
  and then stores \<^verbatim>\<open>defaultPlatformFee\<close> in place of a platform percentage of zero. The
  owner 1 configures project 1 with the community wallet 4 at 10000 and the platform
  percentage 0: the call is accepted and the stored percentages are 10000 and 250, in sum
  10250. A sale at the price 10000 then allots 10000 to the wallet 4 and 250 to the
  treasury 8, while the contract received 10000.
\<close>

theorem accepted_split_exceeds_bound:
  "isl (configurePaymentSplit demo_distributor 1 1 [4] [10000] [] [] [] [] 0 0) = False
   \<and> all_percentages (projectPaymentSplits demo_over_configured 1) = [10000, 250]
   \<and> split_total (projectPaymentSplits demo_over_configured 1) = 10250
   \<and> isl (recordSaleAndDistribute demo_over_configured 6 10000 True 3000 1 1 100 10000 6 2) = False
   \<and> pendingWithdrawals demo_over_sold 4 = 10000
   \<and> pendingWithdrawals demo_over_sold 8 = 250
   \<and> pd_balance demo_over_sold = 10000"
  by (simp add: distributor_defs all_percentages_def split_total_def)

lemma shares_append: "shares t (ps @ qs) = shares t ps + shares t qs"
  by (simp add: shares_def)

lemma shares_Cons: "shares t (p # ps) = t * p div 10000 + shares t ps"
  by (simp add: shares_def)

lemma distribute_loop_fits:
  assumes "length ws = length ps"
      and "\<forall>p\<in>set ps. t * p \<le> MAX_UINT256"
      and "set ws \<subseteq> W"
      and "\<forall>a\<in>W. pending a + shares t ps + R \<le> MAX_UINT256"
  shows "\<exists>pending'. distribute_loop pending t ws ps = Inr pending'
          \<and> (\<forall>a\<in>W. pending' a + R \<le> MAX_UINT256)"
  using assms
proof (induction ws ps arbitrary: pending rule: list_induct2)
  case Nil
  then show ?case by (simp add: shares_def)
next
  case (Cons w ws p ps)
  let ?share = "t * p div 10000"
  let ?pending1 = "pending(w := pending w + ?share)"
  from Cons.prems have prod: "t * p \<le> MAX_UINT256" and rest: "\<forall>p\<in>set ps. t * p \<le> MAX_UINT256"
    and w: "w \<in> W" and ws: "set ws \<subseteq> W"
    by auto
  from Cons.prems(3) have bound: "\<forall>a\<in>W. pending a + ?share + shares t ps + R \<le> MAX_UINT256"
    by (simp add: shares_Cons add.assoc)
  show ?case
  proof (cases "?share > 0")
    case True
    from bound w have fit: "pending w + ?share \<le> MAX_UINT256"
      by auto
    have "\<exists>pending'. distribute_loop ?pending1 t ws ps = Inr pending'
            \<and> (\<forall>a\<in>W. pending' a + R \<le> MAX_UINT256)"
      by (rule Cons.IH [OF rest ws]) (use bound in auto)
    with True prod fit show ?thesis
      by simp
  next
    case False
    have "\<exists>pending'. distribute_loop pending t ws ps = Inr pending'
            \<and> (\<forall>a\<in>W. pending' a + R \<le> MAX_UINT256)"
      by (rule Cons.IH [OF rest ws]) (use bound False in auto)
    with False prod show ?thesis
      by simp
  qed
qed

lemma distributePayment_fits:
  assumes fits: "distribution_fits s pid price"
  shows "\<exists>pending'. distributePayment s saleId pid price =
           Inr (s\<lparr>pendingWithdrawals := pending',
                  sales := (sales s)(saleId := (sales s saleId)\<lparr>isDistributed := True\<rparr>)\<rparr>)"
proof -
  let ?sp = "projectPaymentSplits s pid"
  let ?W = "set (all_wallets ?sp)"
  let ?pp = "platformPercentage ?sp"
  from fits have wf: "split_wellformed ?sp"
    and prods: "\<forall>p\<in>set (all_percentages ?sp). price * p \<le> MAX_UINT256"
    and room: "\<forall>a\<in>?W. pendingWithdrawals s a + shares price (all_percentages ?sp) \<le> MAX_UINT256"
    by (simp_all add: distribution_fits_def Let_def list_all_iff)
  from room have room1: "\<forall>a\<in>?W. pendingWithdrawals s a + shares price (communityPercentages ?sp)
      + (shares price (ngoPercentages ?sp) + (shares price (verifierPercentages ?sp) + shares price [?pp])) \<le> MAX_UINT256"
    by (simp add: all_percentages_def shares_append add.assoc)
  from wf have l1: "length (communityWallets ?sp) = length (communityPercentages ?sp)"
    and l2: "length (ngoWallets ?sp) = length (ngoPercentages ?sp)"
    and l3: "length (verifierWallets ?sp) = length (verifierPercentages ?sp)"
    by (simp_all add: split_wellformed_def)
  from prods have p1: "\<forall>p\<in>set (communityPercentages ?sp). price * p \<le> MAX_UINT256"
    and p2: "\<forall>p\<in>set (ngoPercentages ?sp). price * p \<le> MAX_UINT256"
    and p3: "\<forall>p\<in>set (verifierPercentages ?sp). price * p \<le> MAX_UINT256"
    and p4: "price * ?pp \<le> MAX_UINT256"
    by (simp_all add: all_percentages_def)
  have w1: "set (communityWallets ?sp) \<subseteq> ?W" and w2: "set (ngoWallets ?sp) \<subseteq> ?W"
    and w3: "set (verifierWallets ?sp) \<subseteq> ?W" and w4: "platformWallet ?sp \<in> ?W"
    by (auto simp: all_wallets_def)
  from distribute_loop_fits [OF l1 p1 w1 room1] obtain pending1 where
    d1: "distribute_loop (pendingWithdrawals s) price (communityWallets ?sp) (communityPercentages ?sp) = Inr pending1"
    and r1: "\<forall>a\<in>?W. pending1 a + (shares price (ngoPercentages ?sp)
               + (shares price (verifierPercentages ?sp) + shares price [?pp])) \<le> MAX_UINT256"
    by blast
  from r1 have room2: "\<forall>a\<in>?W. pending1 a + shares price (ngoPercentages ?sp)
               + (shares price (verifierPercentages ?sp) + shares price [?pp]) \<le> MAX_UINT256"
    by (simp add: add.assoc)
  from distribute_loop_fits [OF l2 p2 w2 room2] obtain pending2 where
    d2: "distribute_loop pending1 price (ngoWallets ?sp) (ngoPercentages ?sp) = Inr pending2"
    and r2: "\<forall>a\<in>?W. pending2 a + (shares price (verifierPercentages ?sp) + shares price [?pp]) \<le> MAX_UINT256"
    by blast
  from r2 have room3: "\<forall>a\<in>?W. pending2 a + shares price (verifierPercentages ?sp) + shares price [?pp] \<le> MAX_UINT256"
    by (simp add: add.assoc)
  from distribute_loop_fits [OF l3 p3 w3 room3] obtain pending3 where
    d3: "distribute_loop pending2 price (verifierWallets ?sp) (verifierPercentages ?sp) = Inr pending3"
    and r3: "\<forall>a\<in>?W. pending3 a + shares price [?pp] \<le> MAX_UINT256"
    by blast
  from r3 w4 have p5: "pending3 (platformWallet ?sp) + price * ?pp div 10000 \<le> MAX_UINT256"
    by (auto simp: shares_def)
  from d1 d2 d3 p4 p5 show ?thesis
    by (auto simp: distributePayment_def and_then_def Let_def)
qed

text \<open>
  Every loop of \<^verbatim>\<open>_distributePayment\<close> that returns has added to each address what the
  pairs of the loop allot to it, so a distribution that returns has added to each
  address what the stored split allots to it.
\<close>

lemma allotted_Nil: "allotted t [] a = 0"
  by (simp add: allotted_def)

lemma allotted_Cons: "allotted t ((w, p) # pairs) a = (if w = a then t * p div 10000 else 0) + allotted t pairs a"
  by (simp add: allotted_def)

lemma allotted_append: "allotted t (xs @ ys) a = allotted t xs a + allotted t ys a"
  by (simp add: allotted_def)

lemma distribute_loop_allots:
  "distribute_loop pending t ws ps = Inr pending' \<Longrightarrow>
     pending' a = pending a + allotted t (zip ws ps) a"
  by (induction pending t ws ps rule: distribute_loop.induct)
     (auto simp: allotted_Nil allotted_Cons split: if_splits)

lemma distributePayment_allots:
  assumes run: "distributePayment s saleId pid price = Inr s'"
      and wf: "split_wellformed (projectPaymentSplits s pid)"
  shows "pendingWithdrawals s' a = pendingWithdrawals s a
           + allotted price (zip (all_wallets (projectPaymentSplits s pid))
                                 (all_percentages (projectPaymentSplits s pid))) a"
proof -
  let ?sp = "projectPaymentSplits s pid"
  from wf have z: "zip (all_wallets ?sp) (all_percentages ?sp) =
      zip (communityWallets ?sp) (communityPercentages ?sp) @ zip (ngoWallets ?sp) (ngoPercentages ?sp)
      @ zip (verifierWallets ?sp) (verifierPercentages ?sp) @ [(platformWallet ?sp, platformPercentage ?sp)]"
    by (simp add: split_wellformed_def all_wallets_def all_percentages_def)
  from run obtain p1 p2 p3 where
    d1: "distribute_loop (pendingWithdrawals s) price (communityWallets ?sp) (communityPercentages ?sp) = Inr p1"
    and d2: "distribute_loop p1 price (ngoWallets ?sp) (ngoPercentages ?sp) = Inr p2"
    and d3: "distribute_loop p2 price (verifierWallets ?sp) (verifierPercentages ?sp) = Inr p3"
    and fin: "pendingWithdrawals s' a = p3 a + allotted price [(platformWallet ?sp, platformPercentage ?sp)] a"
    by (auto simp: distributePayment_def and_then_def Let_def allotted_Cons allotted_Nil
          split: sum.splits if_splits)
  from distribute_loop_allots [OF d1, of a] distribute_loop_allots [OF d2, of a]
    distribute_loop_allots [OF d3, of a] fin
  show ?thesis
    by (simp add: z allotted_append)
qed

text \<open>
  C6 (a sale for a claim with no configured split, given a positive price and a payment
  that covers it, succeeds, is marked distributed and credits no one). The claim fails
  as stated: \<^verbatim>\<open>recordSaleAndDistribute\<close> also requires a positive amount (and a
  positive project id and nonzero buyer and seller), so a sale of amount 0 for the
  unconfigured project 1 is refused although the price is positive and paid.
\<close>

theorem unconfigured_sale_needs_amount: "projectPaymentSplits demo_distributor 1 = empty_split
   \<and> recordSaleAndDistribute demo_distributor 6 100 True 3000 1 1 0 100 6 2
       = Inl (Revert ''Amount must be greater than 0'')"
  by (simp add: distributor_defs)

text \<open>
  C6 as amended: for a project with no configured split, a sale with a positive project
  id, amount and price, nonzero buyer and seller, a payment of at least the price, a sale
  counter below the maximum and a refund of any overpayment that the caller accepts,
  succeeds: the sale is recorded and marked distributed, no pending withdrawal changes,
  and the contract keeps the price.
\<close>

theorem unconfigured_sale_pays_no_one:
  assumes "projectPaymentSplits s pid = empty_split"
      and "pid > 0" and "amt > 0" and "price > 0" and "buyer \<noteq> 0" and "seller \<noteq> 0"
      and "msg_value \<ge> price" and "saleIdCounter s < MAX_UINT256"
      and "accepted \<or> msg_value = price"
  shows "\<exists>s'. recordSaleAndDistribute s sender msg_value accepted now pid bid amt price buyer seller = Inr s'
      \<and> saleIdCounter s' = saleIdCounter s + 1
      \<and> sales s' (saleIdCounter s + 1) =
           \<lparr>sale_projectId = pid, sale_batchId = bid, sale_amount = amt, sale_price = price,
            sale_buyer = buyer, sale_seller = seller, sale_timestamp = now, isDistributed = True\<rparr>
      \<and> pendingWithdrawals s' = pendingWithdrawals s
      \<and> pd_balance s' = pd_balance s + price"
  using assms
  by (auto simp: recordSaleAndDistribute_def distributePayment_def empty_split_def and_then_def Let_def)

theorem unconfigured_sale_pays_no_one_witness:
  "\<exists>s'. recordSaleAndDistribute demo_distributor 6 105 True 3000 1 1 50 100 6 2 = Inr s'
      \<and> saleIdCounter s' = saleIdCounter demo_distributor + 1
      \<and> sales s' (saleIdCounter demo_distributor + 1) =
           \<lparr>sale_projectId = 1, sale_batchId = 1, sale_amount = 50, sale_price = 100,
            sale_buyer = 6, sale_seller = 2, sale_timestamp = 3000, isDistributed = True\<rparr>
      \<and> pendingWithdrawals s' = pendingWithdrawals demo_distributor
      \<and> pd_balance s' = pd_balance demo_distributor + 100"
proof -
  have split: "projectPaymentSplits demo_distributor 1 = empty_split"
    and counter: "saleIdCounter demo_distributor < MAX_UINT256"
    by (simp_all add: demo_distributor_def distributor_deployed_def MAX_UINT256_def)
  have "(1::nat) > 0" "(50::nat) > 0" "(100::nat) > 0" "(6::address) \<noteq> 0" "(2::address) \<noteq> 0"
    "(105::nat) \<ge> 100" "True \<or> (105::nat) = 100"
    by simp_all
  from unconfigured_sale_pays_no_one [OF split this(1-6) counter this(7)]
  show ?thesis .
qed

text \<open>
  C9 (with a positive pending balance \<^verbatim>\<open>withdraw\<close> transfers the full amount and zeroes
  it; a repeated withdraw and a withdraw at zero fail with nothing to withdraw). The
  claim fails as stated: the transfer is part of \<^verbatim>\<open>withdraw\<close> and
  \<^verbatim>\<open>require(success, "Transfer failed")\<close> reverts the call when it fails. After a sale
  of 10000 under a split of 5000 for the wallet 4 and 1000 for the platform, the owner
  takes the contract's 10000 with \<^verbatim>\<open>emergencyWithdraw\<close>; the wallet 4 still has 5000
  pending and its withdraw fails.
\<close>

theorem withdraw_fails_when_drained:
  "pendingWithdrawals demo_drained 4 = 5000
   \<and> pd_balance demo_drained = 0
   \<and> withdraw demo_drained 4 True = Inl (Revert ''Transfer failed'')
   \<and> pendingWithdrawals (distributor_exec demo_drained (4, 3200, Withdraw True)) 4 = 5000"
  by (simp add: distributor_defs)

text \<open>
  C9 as amended: when the pending balance is positive, the caller accepts the transfer and
  the contract holds the amount, \<^verbatim>\<open>withdraw\<close> transfers exactly the pending amount and
  sets it to zero, and a repeated withdraw fails with \<^verbatim>\<open>No funds to withdraw\<close>; so does
  every withdraw at a pending balance of zero.
\<close>

theorem withdraw_pays_once:
  assumes "pendingWithdrawals s a > 0" and "accepted" and "pendingWithdrawals s a \<le> pd_balance s"
      and "pendingWithdrawals s b = 0"
  shows "(\<exists>s'. withdraw s a accepted = Inr (pendingWithdrawals s a, s')
            \<and> pendingWithdrawals s' a = 0
            \<and> pd_balance s' + pendingWithdrawals s a = pd_balance s
            \<and> withdraw s' a again = Inl (Revert ''No funds to withdraw''))
       \<and> withdraw s b any = Inl (Revert ''No funds to withdraw'')"
  using assms
  by (auto simp: withdraw_def Let_def)

theorem withdraw_pays_once_witness:
  "(\<exists>s'. withdraw demo_sold 4 True = Inr (5000, s')
        \<and> pendingWithdrawals s' 4 = 0
        \<and> pd_balance s' + 5000 = 10000
        \<and> withdraw s' 4 True = Inl (Revert ''No funds to withdraw''))
   \<and> withdraw demo_sold 5 True = Inl (Revert ''No funds to withdraw'')"
proof -
  have pending: "pendingWithdrawals demo_sold 4 = 5000"
    and balance: "pd_balance demo_sold = 10000"
    and other: "pendingWithdrawals demo_sold 5 = 0"
    by (simp_all add: distributor_defs)
  from pending balance have "pendingWithdrawals demo_sold 4 > 0" "True"
    "pendingWithdrawals demo_sold 4 \<le> pd_balance demo_sold"
    by simp_all
  from withdraw_pays_once [OF this other, of True True] pending balance
  show ?thesis by simp
qed

text \<open>
  C10 (\<^verbatim>\<open>recordSaleAndDistribute\<close> has no authorization precondition and succeeds for
  every caller whenever the project id, the amount and the price are positive, buyer and
  seller are nonzero and the payment covers the price). The absence of any authorization
  holds; the success under the listed conditions alone does not. With the split of 5000
  for the wallet 4 and 1000 for the platform, a sale at the price \<open>2 ^ 255\<close> with that
  payment reverts in the checked multiplication \<^verbatim>\<open>_totalAmount * percentage\<close>, and a sale
  at the price 100 paid with 101 reverts when the caller does not accept the refund of 1.
\<close>

theorem sale_fails_on_overflow_or_refused_refund:
  "recordSaleAndDistribute demo_half_configured 6 (2 ^ 255) True 3000 1 1 50 (2 ^ 255) 6 2
      = Inl Panic_0x11
   \<and> recordSaleAndDistribute demo_half_configured 6 101 False 3000 1 1 50 100 6 2
      = Inl (Revert [])"
  by (simp add: distributor_defs)

text \<open>
  C10 as amended: no condition of \<^verbatim>\<open>recordSaleAndDistribute\<close> depends on the caller.
  For every caller, it succeeds whenever the project id, the amount and the price are
  positive, buyer and seller are nonzero, the payment is at least the price, the sale
  counter is below the maximum, the project's stored split pairs wallets with percentages
  and no product \<^verbatim>\<open>price * percentage\<close> and no pending balance plus the shares leaves
  \<^verbatim>\<open>uint256\<close>, and the caller accepts the refund of any overpayment. The call then
  creates the sale record, marked distributed, and triggers the pending-withdrawal
  distribution for the project: the pending withdrawal of every address grows by exactly
  the shares \<^verbatim>\<open>price * percentage / 10000\<close> that the stored split allots to it; the
  contract keeps the price, and any other caller gets the same result.
\<close>

theorem sale_needs_no_authorization:
  assumes "pid > 0" and "amt > 0" and "price > 0" and "buyer \<noteq> 0" and "seller \<noteq> 0"
      and "msg_value \<ge> price"
      and "saleIdCounter s < MAX_UINT256"
      and "distribution_fits s pid price"
      and "accepted \<or> msg_value = price"
  shows "\<exists>s'. recordSaleAndDistribute s sender msg_value accepted now pid bid amt price buyer seller = Inr s'
      \<and> recordSaleAndDistribute s other msg_value accepted now pid bid amt price buyer seller = Inr s'
      \<and> saleIdCounter s' = saleIdCounter s + 1
      \<and> sales s' (saleIdCounter s + 1) =
           \<lparr>sale_projectId = pid, sale_batchId = bid, sale_amount = amt, sale_price = price,
            sale_buyer = buyer, sale_seller = seller, sale_timestamp = now, isDistributed = True\<rparr>
      \<and> pd_balance s' = pd_balance s + price
      \<and> pendingWithdrawals s' =
           (\<lambda>a. pendingWithdrawals s a
                  + allotted price (zip (all_wallets (projectPaymentSplits s pid))
                                        (all_percentages (projectPaymentSplits s pid))) a)"
proof -
  let ?id = "saleIdCounter s + 1"
  let ?sale = "\<lparr>sale_projectId = pid, sale_batchId = bid, sale_amount = amt, sale_price = price,
            sale_buyer = buyer, sale_seller = seller, sale_timestamp = now, isDistributed = False\<rparr>"
  let ?s1 = "s\<lparr>pd_balance := pd_balance s + msg_value, saleIdCounter := ?id,
                sales := (sales s)(?id := ?sale)\<rparr>"
  from assms(8) have fits: "distribution_fits ?s1 pid price"
    by (simp add: distribution_fits_def)
  from assms(8) have wf: "split_wellformed (projectPaymentSplits ?s1 pid)"
    by (simp add: distribution_fits_def Let_def)
  from distributePayment_fits [OF fits, of ?id] obtain pending' where
    run: "distributePayment ?s1 ?id pid price =
       Inr (?s1\<lparr>pendingWithdrawals := pending',
                sales := (sales ?s1)(?id := (sales ?s1 ?id)\<lparr>isDistributed := True\<rparr>)\<rparr>)"
    by blast
  have "pending' a = pendingWithdrawals s a
          + allotted price (zip (all_wallets (projectPaymentSplits s pid))
                                (all_percentages (projectPaymentSplits s pid))) a" for a
    using distributePayment_allots [OF run wf, of a] by simp
  then have pend: "pending' = (\<lambda>a. pendingWithdrawals s a
          + allotted price (zip (all_wallets (projectPaymentSplits s pid))
                                (all_percentages (projectPaymentSplits s pid))) a)"
    by (rule ext)
  from run assms show ?thesis
    unfolding pend
    by (auto simp: recordSaleAndDistribute_def Let_def)
qed

theorem sale_needs_no_authorization_witness:
  "\<exists>s'. recordSaleAndDistribute demo_configured 6 (10 ^ 18 + 5) True 3000 1 1 100 (10 ^ 18) 6 2 = Inr s'
      \<and> recordSaleAndDistribute demo_configured 7 (10 ^ 18 + 5) True 3000 1 1 100 (10 ^ 18) 6 2 = Inr s'
      \<and> saleIdCounter s' = saleIdCounter demo_configured + 1
      \<and> sales s' (saleIdCounter demo_configured + 1) =
           \<lparr>sale_projectId = 1, sale_batchId = 1, sale_amount = 100, sale_price = 10 ^ 18,
            sale_buyer = 6, sale_seller = 2, sale_timestamp = 3000, isDistributed = True\<rparr>
      \<and> pd_balance s' = pd_balance demo_configured + 10 ^ 18
      \<and> pendingWithdrawals s' 4 = 3 * 10 ^ 17
      \<and> pendingWithdrawals s' 5 = 2 * 10 ^ 17
      \<and> pendingWithdrawals s' 1 = 35 * 10 ^ 16
      \<and> pendingWithdrawals s' 3 = 15 * 10 ^ 16
      \<and> pendingWithdrawals s' 6 = 0"
proof -
  have fits: "distribution_fits demo_configured 1 (10 ^ 18)"
    and counter: "saleIdCounter demo_configured < MAX_UINT256"
    by (simp_all add: distributor_defs distribution_fits_def split_wellformed_def
        all_percentages_def all_wallets_def shares_def)
  have "(1::nat) > 0" "(100::nat) > 0" "(10 ^ 18 :: nat) > 0" "(6::address) \<noteq> 0" "(2::address) \<noteq> 0"
    "(10 ^ 18 + 5 :: nat) \<ge> 10 ^ 18" "True \<or> (10 ^ 18 + 5 :: nat) = 10 ^ 18"
    by simp_all
  from sale_needs_no_authorization [OF this(1-6) counter fits this(7), where sender = 6 and other = 7 and now = 3000 and bid = 1]
  obtain s' where r: "recordSaleAndDistribute demo_configured 6 (10 ^ 18 + 5) True 3000 1 1 100 (10 ^ 18) 6 2 = Inr s'"
      "recordSaleAndDistribute demo_configured 7 (10 ^ 18 + 5) True 3000 1 1 100 (10 ^ 18) 6 2 = Inr s'"
      "saleIdCounter s' = saleIdCounter demo_configured + 1"
      "sales s' (saleIdCounter demo_configured + 1) =
           \<lparr>sale_projectId = 1, sale_batchId = 1, sale_amount = 100, sale_price = 10 ^ 18,
            sale_buyer = 6, sale_seller = 2, sale_timestamp = 3000, isDistributed = True\<rparr>"
      "pd_balance s' = pd_balance demo_configured + 10 ^ 18"
    and pend: "pendingWithdrawals s' =
           (\<lambda>a. pendingWithdrawals demo_configured a
                  + allotted (10 ^ 18) (zip (all_wallets (projectPaymentSplits demo_configured 1))
                                        (all_percentages (projectPaymentSplits demo_configured 1))) a)"
    by blast
  have "pendingWithdrawals s' 4 = 3 * 10 ^ 17" "pendingWithdrawals s' 5 = 2 * 10 ^ 17"
    "pendingWithdrawals s' 1 = 35 * 10 ^ 16" "pendingWithdrawals s' 3 = 15 * 10 ^ 16"
    "pendingWithdrawals s' 6 = 0"
    unfolding pend
    by (simp_all add: distributor_defs allotted_def all_percentages_def all_wallets_def)
  with r show ?thesis
    by blast
qed

section \<open>Properties of the verification oracle\<close>

lemmas oracle_defs = submitVerificationData_def status_update_def updateVerificationStatus_def
  checkProjectVerificationCompletion_def calculateFinalCarbonCredits_def issueCarbonCredits_def
  hasMinimumData_def getProject_def updateTotalCarbonCredits_def projectExists_def
  updateVerificationWeights_def
  mintCreditBatch_def erc20_mint_def oracle_init_def registry_init_def token_init_def
  empty_data_def empty_verification_def empty_project_def empty_batch_def
  VERIFICATION_THRESHOLD_def MAX_UINT256_def wrap256_def decimals_def oracle_run_def Let_def

lemmas demo_defs = demo_finalized_def demo_four_verified_def demo_zero_weights_def demo_submitted_def
  demo_world_def demo_registry_def demo_submissions_def

lemma mintCreditBatch_Inr:
  assumes "mintCreditBatch s sender now pid amt vintage standard ipfs to = Inr (b, s')"
  shows "sender = tk_owner s \<and> amt > 0 \<and> b = batchIdCounter s + 1
     \<and> batchIdCounter s' = batchIdCounter s + 1
     \<and> creditBatches s' (batchIdCounter s + 1) = \<lparr>cb_projectId = pid, cb_amount = amt, cb_vintage = vintage,
           cb_verificationStandard = standard, cb_ipfsMetadata = ipfs, cb_isRetired = False,
           cb_createdAt = now, cb_originalOwner = to\<rparr>
     \<and> totalIssuedCredits s' = totalIssuedCredits s + amt
     \<and> tk_totalSupply s' = tk_totalSupply s + amt * 10 ^ decimals
     \<and> tk_totalSupply s' \<le> MAX_UINT256
     \<and> tk_balances s' = (tk_balances s)(to := wrap256 (tk_balances s to + amt * 10 ^ decimals))"
  using assms
  by (auto simp: mintCreditBatch_def erc20_mint_def Let_def split: if_splits sum.splits)

lemma estimate_loop_Inr:
  "estimate_loop vs ids te tw = Inr (te', tw') \<Longrightarrow>
     te' = te + (\<Sum>i\<leftarrow>filter (\<lambda>i. vd_status (verificationData vs i) = Verified) ids.
                  vd_carbonCreditsEstimate (verificationData vs i) * weight_of vs i)
   \<and> tw' = tw + (\<Sum>i\<leftarrow>filter (\<lambda>i. vd_status (verificationData vs i) = Verified) ids. weight_of vs i)"
  by (induction vs ids te tw rule: estimate_loop.induct) (auto simp: Let_def weight_of_def split: if_splits)

lemma estimate_loop_cong:
  "verificationData vs' = verificationData vs \<Longrightarrow> verificationWeights vs' = verificationWeights vs
     \<Longrightarrow> estimate_loop vs' ids te tw = estimate_loop vs ids te tw"
  by (induction vs ids te tw rule: estimate_loop.induct) (auto simp: Let_def)

lemma calculate_Inr:
  assumes "calculateFinalCarbonCredits vs pid = Inr q"
  shows "q = weighted_average vs pid"
proof -
  from assms obtain te tw where
    loop: "estimate_loop vs (verificationIds (projectVerifications vs pid)) 0 0 = Inr (te, tw)" and
    q: "q = (if tw > 0 then te div tw else 0)"
    by (auto simp: calculateFinalCarbonCredits_def split: sum.splits prod.splits)
  from estimate_loop_Inr [OF loop] have
    "te = (\<Sum>i\<leftarrow>accepted_submissions vs pid. vd_carbonCreditsEstimate (verificationData vs i) * weight_of vs i)"
    "tw = (\<Sum>i\<leftarrow>accepted_submissions vs pid. weight_of vs i)"
    by (simp_all add: accepted_submissions_def)
  then have "weighted_average vs pid = te div tw"
    by (simp only: weighted_average_def)
  with q show ?thesis
    by (cases "tw = 0") simp_all
qed

lemma check_finalized:
  assumes "isCompletelyVerified (projectVerifications (the_oracle w) pid)"
      and "checkProjectVerificationCompletion w now pid = Inr w'"
  shows "w' = w"
  using assms
  by (auto simp: checkProjectVerificationCompletion_def Let_def split: if_splits sum.splits prod.splits)

lemma check_Inr:
  assumes "checkProjectVerificationCompletion w now pid = Inr w'"
  obtains (unchanged) "w' = w"
  | (fired) tw vw q b where
      "\<not> isCompletelyVerified (projectVerifications (the_oracle w) pid)"
      "hasMinimumData (the_oracle w) pid"
      "weight_loop (the_oracle w) (verificationIds (projectVerifications (the_oracle w) pid)) 0 0 = Inr (tw, vw)"
      "tw \<noteq> 0" "vw * 10000 div tw \<ge> VERIFICATION_THRESHOLD"
      "q = weighted_average (the_oracle w') pid"
      "the_oracle w' = (the_oracle w)\<lparr>projectVerifications :=
            (projectVerifications (the_oracle w))(pid :=
               (projectVerifications (the_oracle w) pid)\<lparr>isCompletelyVerified := True, finalCarbonCredits := q\<rparr>)\<rparr>"
      "updateTotalCarbonCredits (the_registry w) (vo_address (the_oracle w)) pid q = Inr (the_registry w')"
      "mintCreditBatch (the_token w) (vo_address (the_oracle w)) now pid q now
            ''Blue Carbon MRV Standard'' [] (pr_projectOwner (projects (the_registry w) pid)) = Inr (b, the_token w')"
proof (cases "w' = w")
  case True
  then show ?thesis by (rule unchanged)
next
  case False
  let ?vs = "the_oracle w"
  let ?pv = "projectVerifications ?vs pid"
  let ?vs1 = "?vs\<lparr>projectVerifications := (projectVerifications ?vs)(pid := ?pv\<lparr>isCompletelyVerified := True\<rparr>)\<rparr>"
  from assms False obtain tw vw where
    hmd: "hasMinimumData ?vs pid" and
    wl: "weight_loop ?vs (verificationIds ?pv) 0 0 = Inr (tw, vw)" and
    tw: "tw \<noteq> 0" and score: "vw * 10000 div tw \<ge> VERIFICATION_THRESHOLD" and
    nf: "\<not> isCompletelyVerified ?pv"
    by (auto simp: checkProjectVerificationCompletion_def Let_def split: if_splits sum.splits prod.splits)
  from assms False hmd wl tw score nf obtain q rg1 where
    calc: "calculateFinalCarbonCredits ?vs1 pid = Inr q" and
    upd: "updateTotalCarbonCredits (the_registry w) (vo_address ?vs) pid q = Inr rg1" and
    iss: "issueCarbonCredits (w\<lparr>the_oracle := ?vs1\<lparr>projectVerifications :=
             (projectVerifications ?vs1)(pid := (projectVerifications ?vs1 pid)\<lparr>finalCarbonCredits := q\<rparr>)\<rparr>,
             the_registry := rg1\<rparr>) now pid q = Inr w'"
    by (auto simp: checkProjectVerificationCompletion_def Let_def split: if_splits sum.splits prod.splits)
  from upd have owner: "pr_projectOwner (projects rg1 pid) = pr_projectOwner (projects (the_registry w) pid)"
    by (auto simp: updateTotalCarbonCredits_def split: if_splits)
  from iss owner obtain b where
    mint: "mintCreditBatch (the_token w) (vo_address ?vs) now pid q now
            ''Blue Carbon MRV Standard'' [] (pr_projectOwner (projects (the_registry w) pid)) = Inr (b, the_token w')"
    and orc: "the_oracle w' = ?vs\<lparr>projectVerifications :=
            (projectVerifications ?vs)(pid := ?pv\<lparr>isCompletelyVerified := True, finalCarbonCredits := q\<rparr>)\<rparr>"
    and reg: "the_registry w' = rg1"
    by (auto simp: issueCarbonCredits_def getProject_def split: if_splits sum.splits prod.splits)
  have "estimate_loop (the_oracle w') (verificationIds ?pv) 0 0 = estimate_loop ?vs1 (verificationIds ?pv) 0 0"
    by (rule estimate_loop_cong) (simp_all add: orc)
  with calc have "calculateFinalCarbonCredits (the_oracle w') pid = Inr q"
    by (simp add: calculateFinalCarbonCredits_def orc)
  then have "q = weighted_average (the_oracle w') pid"
    by (rule calculate_Inr)
  with nf hmd wl tw score orc upd reg mint show ?thesis
    by (auto intro: fired)
qed

lemma status_update_Inr:
  assumes "status_update w sender now vid newStatus notes = Inr w1"
  shows "the_token w1 = the_token w \<and> the_registry w1 = the_registry w
     \<and> vd_status (verificationData (the_oracle w1) vid) = newStatus
     \<and> vd_projectId (verificationData (the_oracle w1) vid) = vd_projectId (verificationData (the_oracle w) vid)
     \<and> isCompletelyVerified (projectVerifications (the_oracle w1) p)
         = isCompletelyVerified (projectVerifications (the_oracle w) p)
     \<and> finalCarbonCredits (projectVerifications (the_oracle w1) p)
         = finalCarbonCredits (projectVerifications (the_oracle w) p)"
  using assms
  by (auto simp: status_update_def Let_def split: if_splits)

lemma submit_keeps_final:
  assumes "submitVerificationData w sender now pid source ipfsHash description estimate = Inr (v, w')"
  shows "isCompletelyVerified (projectVerifications (the_oracle w') p)
         = isCompletelyVerified (projectVerifications (the_oracle w) p)
     \<and> finalCarbonCredits (projectVerifications (the_oracle w') p)
         = finalCarbonCredits (projectVerifications (the_oracle w) p)"
  using assms
  by (cases source) (auto simp: submitVerificationData_def Let_def split: if_splits sum.splits)

lemma decide_keeps_final:
  assumes fin: "isCompletelyVerified (projectVerifications (the_oracle w) pid)"
      and upd: "updateVerificationStatus w sender now vid newStatus notes = Inr w'"
  shows "isCompletelyVerified (projectVerifications (the_oracle w') pid)
     \<and> finalCarbonCredits (projectVerifications (the_oracle w') pid)
         = finalCarbonCredits (projectVerifications (the_oracle w) pid)
     \<and> (vd_projectId (verificationData (the_oracle w) vid) = pid
          \<longrightarrow> the_token w' = the_token w \<and> the_registry w' = the_registry w)"
proof -
  from upd obtain w1 where
    su: "status_update w sender now vid newStatus notes = Inr w1" and
    chk: "checkProjectVerificationCompletion w1 now (vd_projectId (verificationData (the_oracle w1) vid)) = Inr w'"
    by (auto simp: updateVerificationStatus_def split: sum.splits)
  let ?p0 = "vd_projectId (verificationData (the_oracle w1) vid)"
  note s1 = status_update_Inr [OF su, of pid]
  from s1 fin have fin1: "isCompletelyVerified (projectVerifications (the_oracle w1) pid)"
    by simp
  show ?thesis
  proof (cases "?p0 = pid")
    case True
    with chk fin1 have "w' = w1"
      by (auto dest: check_finalized)
    with s1 fin1 show ?thesis by simp
  next
    case False
    from chk False have
      "projectVerifications (the_oracle w') pid = projectVerifications (the_oracle w1) pid"
      by (cases rule: check_Inr) auto
    with s1 fin1 False show ?thesis by simp
  qed
qed

lemma oracle_exec_keeps_final:
  assumes "isCompletelyVerified (projectVerifications (the_oracle w) pid)"
  shows "isCompletelyVerified (projectVerifications (the_oracle (oracle_exec w c)) pid)
     \<and> finalCarbonCredits (projectVerifications (the_oracle (oracle_exec w c)) pid)
         = finalCarbonCredits (projectVerifications (the_oracle w) pid)"
proof -
  obtain sender now call where c: "c = (sender, now, call)"
    by (cases c) auto
  show ?thesis
  proof (cases call)
    case (Submit p src h d e)
    with c assms show ?thesis
      by (auto split: sum.splits dest: submit_keeps_final [where p = pid])
  next
    case (Decide vid st nt)
    with c assms show ?thesis
      by (auto split: sum.splits dest: decide_keeps_final)
  qed (insert c assms, auto simp: addVerifier_def removeVerifier_def updateMinimumDataRequirements_def
        updateVerificationWeights_def oracle_transferOwnership_def oracle_renounceOwnership_def
        split: sum.splits if_splits)
qed

lemma oracle_run_keeps_final:
  "isCompletelyVerified (projectVerifications (the_oracle w) pid) \<Longrightarrow>
     isCompletelyVerified (projectVerifications (the_oracle (oracle_run w calls)) pid)
     \<and> finalCarbonCredits (projectVerifications (the_oracle (oracle_run w calls)) pid)
         = finalCarbonCredits (projectVerifications (the_oracle w) pid)"
proof (induction calls arbitrary: w)
  case Nil
  then show ?case by (simp add: oracle_run_def)
next
  case (Cons c calls)
  from oracle_exec_keeps_final [OF Cons.prems, of c] Cons.IH [of "oracle_exec w c"]
  show ?case by (simp add: oracle_run_def)
qed

lemma count_source_Inr:
  "source_count pv source < MAX_UINT256 \<Longrightarrow> \<exists>pv'. count_source pv source = Inr pv'
     \<and> source_count pv' source = source_count pv source + 1
     \<and> verificationIds pv' = verificationIds pv"
  by (cases source) auto

lemma decide_Inr_exec:
  "\<not> isl (updateVerificationStatus w sender now vid newStatus notes) \<Longrightarrow>
     updateVerificationStatus w sender now vid newStatus notes
       = Inr (oracle_exec w (sender, now, Decide vid newStatus notes))"
  by (cases "updateVerificationStatus w sender now vid newStatus notes") simp_all

text \<open>
  C4 (the finalized flag goes from false to true at most once, and after finalization no
  decide on a submission of the claim changes the issued quantity or issues a batch).
  Once a claim is finalized, it stays finalized with the same issued quantity through
  every run of calls of the oracle, and a decide on one of its submissions, whether it
  succeeds or is reverted, leaves the token and the registry as they were.
\<close>

theorem single_finalization:
  assumes fin: "isCompletelyVerified (projectVerifications (the_oracle w) pid)"
      and w1: "w1 = oracle_run w calls"
      and vid: "vd_projectId (verificationData (the_oracle w1) vid) = pid"
      and w2: "w2 = oracle_exec w1 (sender, now, Decide vid newStatus notes)"
  shows "isCompletelyVerified (projectVerifications (the_oracle w1) pid)
     \<and> finalCarbonCredits (projectVerifications (the_oracle w1) pid)
         = finalCarbonCredits (projectVerifications (the_oracle w) pid)
     \<and> isCompletelyVerified (projectVerifications (the_oracle w2) pid)
     \<and> finalCarbonCredits (projectVerifications (the_oracle w2) pid)
         = finalCarbonCredits (projectVerifications (the_oracle w) pid)
     \<and> the_token w2 = the_token w1 \<and> the_registry w2 = the_registry w1"
proof -
  from oracle_run_keeps_final [OF fin, of calls] w1 have
    f1: "isCompletelyVerified (projectVerifications (the_oracle w1) pid)" and
    q1: "finalCarbonCredits (projectVerifications (the_oracle w1) pid)
           = finalCarbonCredits (projectVerifications (the_oracle w) pid)"
    by simp_all
  show ?thesis
  proof (cases "updateVerificationStatus w1 sender now vid newStatus notes")
    case (Inl e)
    with w2 f1 q1 show ?thesis by simp
  next
    case (Inr w')
    with w2 have "w2 = w'" by simp
    with decide_keeps_final [OF f1 Inr] vid f1 q1 show ?thesis by simp
  qed
qed

theorem single_finalization_witness:
  "isCompletelyVerified (projectVerifications (the_oracle
       (oracle_run demo_finalized [(3, 2006, Decide 6 Verified ''Verified''),
          (4, 2007, Submit 1 Community ''QmLate'' ''Late'' 500)])) 1)
   \<and> finalCarbonCredits (projectVerifications (the_oracle
       (oracle_run demo_finalized [(3, 2006, Decide 6 Verified ''Verified''),
          (4, 2007, Submit 1 Community ''QmLate'' ''Late'' 500)])) 1) = 100
   \<and> finalCarbonCredits (projectVerifications (the_oracle
       (oracle_exec (oracle_run demo_finalized [(3, 2006, Decide 6 Verified ''Verified''),
          (4, 2007, Submit 1 Community ''QmLate'' ''Late'' 500)])
          (3, 2008, Decide 8 Verified ''Verified''))) 1) = 100
   \<and> the_token (oracle_exec (oracle_run demo_finalized [(3, 2006, Decide 6 Verified ''Verified''),
          (4, 2007, Submit 1 Community ''QmLate'' ''Late'' 500)])
          (3, 2008, Decide 8 Verified ''Verified''))
       = the_token (oracle_run demo_finalized [(3, 2006, Decide 6 Verified ''Verified''),
          (4, 2007, Submit 1 Community ''QmLate'' ''Late'' 500)])
   \<and> vd_status (verificationData (the_oracle
       (oracle_exec (oracle_run demo_finalized [(3, 2006, Decide 6 Verified ''Verified''),
          (4, 2007, Submit 1 Community ''QmLate'' ''Late'' 500)])
          (3, 2008, Decide 8 Verified ''Verified''))) 8) = Verified"
proof -
  let ?w1 = "oracle_run demo_finalized [(3, 2006, Decide 6 Verified ''Verified''),
          (4, 2007, Submit 1 Community ''QmLate'' ''Late'' 500)]"
  have fin: "isCompletelyVerified (projectVerifications (the_oracle demo_finalized) 1)"
    and q: "finalCarbonCredits (projectVerifications (the_oracle demo_finalized) 1) = 100"
    by (simp_all add: demo_defs oracle_defs)
  have vid: "vd_projectId (verificationData (the_oracle ?w1) 8) = 1"
    and st: "vd_status (verificationData (the_oracle
       (oracle_exec ?w1 (3, 2008, Decide 8 Verified ''Verified''))) 8) = Verified"
    by (simp_all add: demo_defs oracle_defs)
  from single_finalization [OF fin refl vid refl, of 3 2008 Verified "''Verified''"] q st
  show ?thesis by simp
qed

text \<open>
  C5 (when finalization fires, the issued quantity is the weight-normalized average of the
  claimed quantities over the Accepted submissions, rounded down, and a batch of exactly
  that quantity is issued to the claim's owner). Whenever a decide that succeeds turns the
  flag of a claim from false to true, the stored quantity is \<open>weighted_average\<close> over the
  state it leaves, and the token has one more batch of that quantity for the claim whose
  owner is the claim's owner in the registry, who holds that many credits more (the
  balance of the owner being within the total supply, as every balance is).
\<close>

theorem finalization_issues_weighted_average:
  assumes upd: "updateVerificationStatus w sender now vid newStatus notes = Inr w'"
      and before: "\<not> isCompletelyVerified (projectVerifications (the_oracle w) pid)"
      and after: "isCompletelyVerified (projectVerifications (the_oracle w') pid)"
      and owner: "owner = pr_projectOwner (projects (the_registry w) pid)"
      and bal: "tk_balances (the_token w) owner \<le> tk_totalSupply (the_token w)"
  shows "finalCarbonCredits (projectVerifications (the_oracle w') pid) = weighted_average (the_oracle w') pid
     \<and> batchIdCounter (the_token w') = batchIdCounter (the_token w) + 1
     \<and> creditBatches (the_token w') (batchIdCounter (the_token w')) =
          \<lparr>cb_projectId = pid, cb_amount = weighted_average (the_oracle w') pid, cb_vintage = now,
           cb_verificationStandard = ''Blue Carbon MRV Standard'', cb_ipfsMetadata = [],
           cb_isRetired = False, cb_createdAt = now, cb_originalOwner = owner\<rparr>
     \<and> tk_balances (the_token w') owner
          = tk_balances (the_token w) owner + weighted_average (the_oracle w') pid * 10 ^ decimals
     \<and> totalIssuedCredits (the_token w')
          = totalIssuedCredits (the_token w) + weighted_average (the_oracle w') pid"
proof -
  from upd obtain w1 where
    su: "status_update w sender now vid newStatus notes = Inr w1" and
    chk: "checkProjectVerificationCompletion w1 now (vd_projectId (verificationData (the_oracle w1) vid)) = Inr w'"
    by (auto simp: updateVerificationStatus_def split: sum.splits)
  let ?p0 = "vd_projectId (verificationData (the_oracle w1) vid)"
  note s1 = status_update_Inr [OF su, of pid]
  from s1 before have before1: "\<not> isCompletelyVerified (projectVerifications (the_oracle w1) pid)"
    by simp
  from s1 have tk: "the_token w1 = the_token w" and rg: "the_registry w1 = the_registry w"
    by simp_all
  from chk show ?thesis
  proof (cases rule: check_Inr)
    case unchanged
    with after before1 show ?thesis by simp
  next
    case (fired tw vw q b)
    note orc = fired(7) and mint = fired(9)
    have p0: "?p0 = pid"
    proof (rule ccontr)
      assume "?p0 \<noteq> pid"
      with orc have "isCompletelyVerified (projectVerifications (the_oracle w') pid)
          = isCompletelyVerified (projectVerifications (the_oracle w1) pid)"
        by simp
      with after before1 show False by simp
    qed
    from orc p0 have fin: "finalCarbonCredits (projectVerifications (the_oracle w') pid) = q"
      by simp
    from fired(6) p0 have q': "weighted_average (the_oracle w') pid = q"
      by simp
    note m = mintCreditBatch_Inr [OF mint]
    from m tk have sup: "tk_totalSupply (the_token w) + q * 10 ^ decimals \<le> MAX_UINT256"
      by simp
    with bal have "wrap256 (tk_balances (the_token w) owner + q * 10 ^ decimals)
        = tk_balances (the_token w) owner + q * 10 ^ decimals"
      by (simp add: wrap256_def)
    with m tk rg p0 owner fin q' show ?thesis
      by simp
  qed
qed

theorem finalization_issues_weighted_average_witness:
  "finalCarbonCredits (projectVerifications (the_oracle demo_finalized) 1)
      = weighted_average (the_oracle demo_finalized) 1
   \<and> weighted_average (the_oracle demo_finalized) 1 = 100
   \<and> batchIdCounter (the_token demo_finalized) = batchIdCounter (the_token demo_four_verified) + 1
   \<and> creditBatches (the_token demo_finalized) (batchIdCounter (the_token demo_finalized)) =
        \<lparr>cb_projectId = 1, cb_amount = weighted_average (the_oracle demo_finalized) 1,
         cb_vintage = 2005, cb_verificationStandard = ''Blue Carbon MRV Standard'',
         cb_ipfsMetadata = [], cb_isRetired = False, cb_createdAt = 2005, cb_originalOwner = 2\<rparr>
   \<and> tk_balances (the_token demo_finalized) 2
        = tk_balances (the_token demo_four_verified) 2
            + weighted_average (the_oracle demo_finalized) 1 * 10 ^ decimals
   \<and> totalIssuedCredits (the_token demo_finalized)
        = totalIssuedCredits (the_token demo_four_verified)
            + weighted_average (the_oracle demo_finalized) 1"
proof -
  have "\<not> isl (updateVerificationStatus demo_four_verified 3 2005 5 Verified ''Verified'')"
    by (simp add: demo_defs oracle_defs)
  then have upd: "updateVerificationStatus demo_four_verified 3 2005 5 Verified ''Verified''
      = Inr demo_finalized"
    unfolding demo_finalized_def by (rule decide_Inr_exec)
  have before: "\<not> isCompletelyVerified (projectVerifications (the_oracle demo_four_verified) 1)"
    and after: "isCompletelyVerified (projectVerifications (the_oracle demo_finalized) 1)"
    and owner: "2 = pr_projectOwner (projects (the_registry demo_four_verified) 1)"
    and bal: "tk_balances (the_token demo_four_verified) 2 \<le> tk_totalSupply (the_token demo_four_verified)"
    and avg: "weighted_average (the_oracle demo_finalized) 1 = 100"
    by (simp_all add: demo_defs oracle_defs weighted_average_def accepted_submissions_def weight_of_def)
  from finalization_issues_weighted_average [OF upd before after owner bal] avg
  show ?thesis by blast
qed

text \<open>
  No finalization issues a batch of quantity zero: \<^verbatim>\<open>mintCreditBatch\<close> requires a
  positive amount, so a decide that finalizes stores a positive quantity.
\<close>

lemma finalization_quantity_positive:
  assumes upd: "updateVerificationStatus w sender now vid newStatus notes = Inr w'"
      and before: "\<not> isCompletelyVerified (projectVerifications (the_oracle w) pid)"
      and after: "isCompletelyVerified (projectVerifications (the_oracle w') pid)"
  shows "finalCarbonCredits (projectVerifications (the_oracle w') pid) > 0"
proof -
  from upd obtain w1 where
    su: "status_update w sender now vid newStatus notes = Inr w1" and
    chk: "checkProjectVerificationCompletion w1 now (vd_projectId (verificationData (the_oracle w1) vid)) = Inr w'"
    by (auto simp: updateVerificationStatus_def split: sum.splits)
  let ?p0 = "vd_projectId (verificationData (the_oracle w1) vid)"
  from status_update_Inr [OF su, of pid] before
  have before1: "\<not> isCompletelyVerified (projectVerifications (the_oracle w1) pid)"
    by simp
  from chk show ?thesis
  proof (cases rule: check_Inr)
    case unchanged
    with after before1 show ?thesis by simp
  next
    case (fired tw vw q b)
    note orc = fired(7) and mint = fired(9)
    have p0: "?p0 = pid"
    proof (rule ccontr)
      assume "?p0 \<noteq> pid"
      with orc have "isCompletelyVerified (projectVerifications (the_oracle w') pid)
          = isCompletelyVerified (projectVerifications (the_oracle w1) pid)"
        by simp
      with after before1 show False by simp
    qed
    from mintCreditBatch_Inr [OF mint] have "q > 0"
      by simp
    with orc p0 show ?thesis
      by simp
  qed
qed

text \<open>
  The loop of \<^verbatim>\<open>_checkProjectVerificationCompletion\<close> computes the weight over all
  submissions of the claim and the weight over its Accepted submissions, and it returns
  them whenever the former fits \<^verbatim>\<open>uint256\<close>.
\<close>

lemma weight_loop_Inr:
  "weight_loop vs ids tw vw = Inr (tw', vw') \<Longrightarrow>
     tw' = tw + (\<Sum>i\<leftarrow>ids. weight_of vs i)
   \<and> vw' = vw + (\<Sum>i\<leftarrow>filter (\<lambda>i. vd_status (verificationData vs i) = Verified) ids. weight_of vs i)"
  by (induction vs ids tw vw rule: weight_loop.induct) (auto simp: Let_def weight_of_def split: if_splits)

lemma weight_loop_fits:
  "vw \<le> tw \<Longrightarrow> tw + (\<Sum>i\<leftarrow>ids. weight_of vs i) \<le> MAX_UINT256 \<Longrightarrow>
     weight_loop vs ids tw vw = Inr (tw + (\<Sum>i\<leftarrow>ids. weight_of vs i),
       vw + (\<Sum>i\<leftarrow>filter (\<lambda>i. vd_status (verificationData vs i) = Verified) ids. weight_of vs i))"
  by (induction vs ids tw vw rule: weight_loop.induct) (auto simp: Let_def weight_of_def)

lemma weight_loop_weights:
  assumes "submitted_weight vs pid \<le> MAX_UINT256"
  shows "weight_loop vs (verificationIds (projectVerifications vs pid)) 0 0
           = Inr (submitted_weight vs pid, accepted_weight vs pid)"
  using weight_loop_fits [where vw = 0 and tw = 0 and vs = vs and ids = "verificationIds (projectVerifications vs pid)"] assms
  by (simp add: submitted_weight_def accepted_weight_def accepted_submissions_def)

lemma weight_loop_result:
  assumes "weight_loop vs (verificationIds (projectVerifications vs pid)) 0 0 = Inr (tw, vw)"
  shows "tw = submitted_weight vs pid \<and> vw = accepted_weight vs pid"
  using weight_loop_Inr [OF assms]
  by (simp add: submitted_weight_def accepted_weight_def accepted_submissions_def)

text \<open>
  A decide whose status update leaves the coverage met and the weight over the Accepted
  submissions at zero finalizes nothing: with a positive weight over all submissions the
  score is 0, below the threshold, and the decide returns with exactly its status update
  (the flag and the issued quantity of the claim, the token and the registry are as
  before); with a weight of zero over all submissions the division of the score panics.
  The decide that rejects submission 1 of the seven submissions is an instance of the
  first case.
\<close>

lemma zero_accepted_weight_decide:
  assumes su: "status_update w sender now vid newStatus nt = Inr w1"
      and pid: "pid = vd_projectId (verificationData (the_oracle w1) vid)"
      and cov: "hasMinimumData (the_oracle w1) pid"
      and fits: "submitted_weight (the_oracle w1) pid \<le> MAX_UINT256"
      and zero: "accepted_weight (the_oracle w1) pid = 0"
  shows "updateVerificationStatus w sender now vid newStatus nt
           = (if submitted_weight (the_oracle w1) pid = 0 then Inl Panic_0x12 else Inr w1)
     \<and> vd_status (verificationData (the_oracle w1) vid) = newStatus
     \<and> isCompletelyVerified (projectVerifications (the_oracle w1) pid)
         = isCompletelyVerified (projectVerifications (the_oracle w) pid)
     \<and> finalCarbonCredits (projectVerifications (the_oracle w1) pid)
         = finalCarbonCredits (projectVerifications (the_oracle w) pid)
     \<and> the_token w1 = the_token w \<and> the_registry w1 = the_registry w"
proof -
  from weight_loop_weights [OF fits] zero
  have wl: "weight_loop (the_oracle w1) (verificationIds (projectVerifications (the_oracle w1) pid)) 0 0
      = Inr (submitted_weight (the_oracle w1) pid, 0)"
    by simp
  have "checkProjectVerificationCompletion w1 now pid
      = (if submitted_weight (the_oracle w1) pid = 0 then Inl Panic_0x12 else Inr w1)"
    using cov wl
    by (simp add: checkProjectVerificationCompletion_def VERIFICATION_THRESHOLD_def Let_def)
  with su pid have "updateVerificationStatus w sender now vid newStatus nt
      = (if submitted_weight (the_oracle w1) pid = 0 then Inl Panic_0x12 else Inr w1)"
    by (simp add: updateVerificationStatus_def)
  with status_update_Inr [OF su, of pid] show ?thesis
    by blast
qed

lemma zero_accepted_weight_decide_example:
  "updateVerificationStatus demo_submitted 3 2001 1 Rejected ''Rejected''
      = Inr (projr (status_update demo_submitted 3 2001 1 Rejected ''Rejected''))
   \<and> accepted_weight (the_oracle (projr (status_update demo_submitted 3 2001 1 Rejected ''Rejected''))) 1 = 0
   \<and> submitted_weight (the_oracle (projr (status_update demo_submitted 3 2001 1 Rejected ''Rejected''))) 1 = 19500
   \<and> vd_status (verificationData (the_oracle
        (projr (status_update demo_submitted 3 2001 1 Rejected ''Rejected''))) 1) = Rejected
   \<and> isCompletelyVerified (projectVerifications (the_oracle
        (projr (status_update demo_submitted 3 2001 1 Rejected ''Rejected''))) 1) = False
   \<and> the_token (projr (status_update demo_submitted 3 2001 1 Rejected ''Rejected''))
        = the_token demo_submitted"
proof -
  let ?r = "status_update demo_submitted 3 2001 1 Rejected ''Rejected''"
  have "\<not> isl ?r"
    by (simp add: demo_defs oracle_defs)
  then have su: "?r = Inr (projr ?r)"
    by simp
  have pid: "1 = vd_projectId (verificationData (the_oracle (projr ?r)) 1)"
    and cov: "hasMinimumData (the_oracle (projr ?r)) 1"
    and zero: "accepted_weight (the_oracle (projr ?r)) 1 = 0"
    and tw: "submitted_weight (the_oracle (projr ?r)) 1 = 19500"
    and flag: "isCompletelyVerified (projectVerifications (the_oracle demo_submitted) 1) = False"
    by (simp_all add: demo_defs oracle_defs accepted_weight_def submitted_weight_def
        accepted_submissions_def weight_of_def)
  have fits: "submitted_weight (the_oracle (projr ?r)) 1 \<le> MAX_UINT256"
    unfolding tw by (simp add: MAX_UINT256_def)
  from zero_accepted_weight_decide [OF su pid cov fits zero] flag zero tw
  show ?thesis by simp
qed

text \<open>
  C7 (when the finalization conditions are met while the weight over the Accepted
  submissions is zero, finalization is deferred: the claim stays unfinalized, no batch of
  quantity zero is issued, and the status update of the decide is kept). The code does
  not do this. \<^verbatim>\<open>_checkProjectVerificationCompletion\<close> computes the score as
  \<^verbatim>\<open>(verifiedWeight * 10000) / totalWeight\<close> without testing \<^verbatim>\<open>totalWeight\<close>, whereas
  \<^verbatim>\<open>_calculateFinalCarbonCredits\<close> guards the same division
  (\<^verbatim>\<open>totalWeight > 0 ? totalEstimate / totalWeight : 0\<close>). After the owner set the weight
  of every source to zero, the coverage of project 1 is met; the status update of the
  verifier's decide on submission 1 succeeds on its own and makes the submission the one
  Accepted submission, with the weight over the Accepted submissions and over all
  submissions at 0, where the guarded function returns 0. The decide as a whole reverts
  with \<^verbatim>\<open>Panic(0x12)\<close>: submission 1 is Pending as before, so the status update is lost,
  and a decide that rejects submission 2 reverts in the same way.
\<close>

theorem zero_total_weight_reverts:
  "hasMinimumData (the_oracle demo_zero_weights) 1
   \<and> status_update demo_zero_weights 3 2001 1 Verified ''Verified''
       = Inr (projr (status_update demo_zero_weights 3 2001 1 Verified ''Verified''))
   \<and> accepted_submissions (the_oracle (projr (status_update demo_zero_weights 3 2001 1 Verified ''Verified''))) 1 = [1]
   \<and> accepted_weight (the_oracle (projr (status_update demo_zero_weights 3 2001 1 Verified ''Verified''))) 1 = 0
   \<and> submitted_weight (the_oracle (projr (status_update demo_zero_weights 3 2001 1 Verified ''Verified''))) 1 = 0
   \<and> weight_loop (the_oracle (projr (status_update demo_zero_weights 3 2001 1 Verified ''Verified'')))
        (verificationIds (projectVerifications (the_oracle demo_zero_weights) 1)) 0 0 = Inr (0, 0)
   \<and> calculateFinalCarbonCredits
        (the_oracle (projr (status_update demo_zero_weights 3 2001 1 Verified ''Verified''))) 1 = Inr 0
   \<and> updateVerificationStatus demo_zero_weights 3 2001 1 Verified ''Verified'' = Inl Panic_0x12
   \<and> vd_status (verificationData (the_oracle
        (oracle_exec demo_zero_weights (3, 2001, Decide 1 Verified ''Verified''))) 1) = Pending
   \<and> updateVerificationStatus demo_zero_weights 3 2001 2 Rejected ''Rejected'' = Inl Panic_0x12"
  by (simp add: demo_defs oracle_defs accepted_weight_def submitted_weight_def
        accepted_submissions_def weight_of_def)

text \<open>
  C8 (a submit for a claim id that does not exist in the registry fails with NotFound
  and creates nothing). \<^verbatim>\<open>submitVerificationData\<close> never reads the registry: its
  modifier \<^verbatim>\<open>validProjectId\<close> requires a positive id only. With an empty registry, a
  submit for project 7 succeeds: it returns the id 1, and the submission and the count of
  the project's community data exist afterwards.
\<close>

theorem submit_unknown_project_succeeds:
  "projectExists (the_registry fresh_world) 7 = False
   \<and> isl (submitVerificationData fresh_world 4 1001 7 Community ''QmData'' ''Data'' 100) = False
   \<and> verificationIdCounter (the_oracle
        (oracle_exec fresh_world (4, 1001, Submit 7 Community ''QmData'' ''Data'' 100))) = 1
   \<and> vd_projectId (verificationData (the_oracle
        (oracle_exec fresh_world (4, 1001, Submit 7 Community ''QmData'' ''Data'' 100))) 1) = 7
   \<and> communityDataCount (projectVerifications (the_oracle
        (oracle_exec fresh_world (4, 1001, Submit 7 Community ''QmData'' ''Data'' 100))) 7) = 1"
  by (simp add: fresh_world_def submitVerificationData_def projectExists_def oracle_init_def
      registry_init_def empty_data_def empty_verification_def MAX_UINT256_def Let_def)

text \<open>
  C8 as amended: a submit with the claim id 0 fails with \<^verbatim>\<open>Invalid project ID\<close>
  (and, reverted, changes nothing); a submit with a positive claim id, a nonempty content
  reference and a positive quantity succeeds whatever the registry holds (the counters
  being below the maximum): it returns the next id, stores a Pending submission for the
  claim, appends the id to the claim's list and counts it under its source.
\<close>

theorem submit_checks_positive_id_only:
  assumes "pid > 0" and "ipfsHash \<noteq> []" and "estimate > 0"
      and "verificationIdCounter (the_oracle w) < MAX_UINT256"
      and "source_count (projectVerifications (the_oracle w) pid) source < MAX_UINT256"
  shows "submitVerificationData w sender now 0 source ipfsHash description estimate
           = Inl (Revert ''Invalid project ID'')
     \<and> (\<exists>w'. submitVerificationData w sender now pid source ipfsHash description estimate
            = Inr (verificationIdCounter (the_oracle w) + 1, w')
          \<and> verificationIdCounter (the_oracle w') = verificationIdCounter (the_oracle w) + 1
          \<and> vd_projectId (verificationData (the_oracle w') (verificationIdCounter (the_oracle w'))) = pid
          \<and> vd_status (verificationData (the_oracle w') (verificationIdCounter (the_oracle w'))) = Pending
          \<and> verificationIds (projectVerifications (the_oracle w') pid)
              = verificationIds (projectVerifications (the_oracle w) pid) @ [verificationIdCounter (the_oracle w')]
          \<and> source_count (projectVerifications (the_oracle w') pid) source
              = source_count (projectVerifications (the_oracle w) pid) source + 1)"
  using assms
  by (cases source) (auto simp: submitVerificationData_def Let_def)

theorem submit_checks_positive_id_only_witness:
  "verificationIdCounter (the_oracle fresh_world) = 0
   \<and> projectExists (the_registry fresh_world) 7 = False
   \<and> submitVerificationData fresh_world 4 1001 0 Community ''QmData'' ''Data'' 100
      = Inl (Revert ''Invalid project ID'')
   \<and> (\<exists>w'. submitVerificationData fresh_world 4 1001 7 Community ''QmData'' ''Data'' 100
            = Inr (verificationIdCounter (the_oracle fresh_world) + 1, w')
          \<and> verificationIdCounter (the_oracle w') = verificationIdCounter (the_oracle fresh_world) + 1
          \<and> vd_projectId (verificationData (the_oracle w') (verificationIdCounter (the_oracle w'))) = 7
          \<and> vd_status (verificationData (the_oracle w') (verificationIdCounter (the_oracle w'))) = Pending
          \<and> verificationIds (projectVerifications (the_oracle w') 7)
              = verificationIds (projectVerifications (the_oracle fresh_world) 7) @ [verificationIdCounter (the_oracle w')]
          \<and> source_count (projectVerifications (the_oracle w') 7) Community
              = source_count (projectVerifications (the_oracle fresh_world) 7) Community + 1)"
proof -
  have counter: "verificationIdCounter (the_oracle fresh_world) < MAX_UINT256"
    and count: "source_count (projectVerifications (the_oracle fresh_world) 7) Community < MAX_UINT256"
    and zero: "verificationIdCounter (the_oracle fresh_world) = 0"
    and unknown: "projectExists (the_registry fresh_world) 7 = False"
    by (simp_all add: fresh_world_def oracle_defs)
  have "(7::nat) > 0" "''QmData'' \<noteq> []" "(100::nat) > 0"
    by simp_all
  from submit_checks_positive_id_only [OF this counter count, of 4 1001 "''Data''"] zero unknown
  show ?thesis by blast
qed

end
